theory Spec2Isabelle
  imports Main "HOL-Library.Word"
begin

section \<open>The statistics builder of ptlsim/stats/statsBuilder.h\<close>

text \<open>
  The header declares a registry of statistics counters. A counter descriptor
  (\<open>StatObj<T>\<close>, \<open>StatArray<T,size>\<close>) owns no storage: it holds a byte offset handed
  out by the singleton \<open>StatsBuilder\<close> and resolves every access to
  \<open>stats->base() + offset\<close> inside the memory block of some \<open>Stats\<close> object.

  Machine types: \<open>W64\<close> is an unsigned 64-bit word, \<open>W8\<close> a byte, \<open>int\<close> a 32-bit
  two's complement word (read with \<open>sint\<close>, widened with \<open>scast\<close>). Addresses are
  \<open>W64\<close> values and pointer arithmetic wraps as the machine's does. A failed
  \<open>assert\<close> ends the run; it is the result \<open>Inl AssertionFailed\<close>.
\<close>

type_synonym W64 = "64 word"
type_synonym W8 = "8 word"
type_synonym c_int = "32 word"

datatype error = AssertionFailed | DivisionByZero

subsection \<open>Memory\<close>

text \<open>
  One byte-addressed memory holds every \<open>Stats\<close> block. The counter type \<open>T\<close> is
  an unsigned integer type of \<open>n = sizeof(T)\<close> bytes (\<open>W8\<close>, \<open>W16\<close>, \<open>W32\<close>,
  \<open>W64\<close>), stored little-endian as on x86-64; its values are the naturals below
  \<open>256 ^ n\<close>. \<open>load\<close> is the read \<open>*(T*)a\<close>, \<open>store\<close> the assignment
  \<open>*(T*)a = v\<close>, which keeps the low \<open>n\<close> bytes of \<open>v\<close>.
\<close>

type_synonym memory = "W64 \<Rightarrow> W8"

fun load :: "memory \<Rightarrow> W64 \<Rightarrow> nat \<Rightarrow> nat" where
  "load m a 0 = 0"
| "load m a (Suc n) = unat (m a) + 256 * load m (a + 1) n"

fun store :: "memory \<Rightarrow> W64 \<Rightarrow> nat \<Rightarrow> nat \<Rightarrow> memory" where
  "store m a 0 v = m"
| "store m a (Suc n) v = store (m(a := of_nat v)) (a + 1) n (v div 256)"

text \<open>Arithmetic of the type \<open>T\<close> of \<open>n\<close> bytes: results are reduced modulo \<open>256 ^ n\<close>.\<close>

definition T_add :: "nat \<Rightarrow> nat \<Rightarrow> nat \<Rightarrow> nat" where
  "T_add n a b = (a + b) mod 256 ^ n"

definition T_sub :: "nat \<Rightarrow> nat \<Rightarrow> nat \<Rightarrow> nat" where
  "T_sub n a b = (a + (256 ^ n - b mod 256 ^ n)) mod 256 ^ n"

definition T_mul :: "nat \<Rightarrow> nat \<Rightarrow> nat \<Rightarrow> nat" where
  "T_mul n a b = (a * b) mod 256 ^ n"

subsection \<open>Stats and StatsBuilder\<close>

text \<open>
  \<open>class Stats\<close> has the one field \<open>W8 *mem\<close>; \<open>base()\<close> returns it as a \<open>W64\<close>.
  A \<open>Stats*\<close> is \<open>None\<close> when null.
\<close>

record Stats =
  mem :: W64

definition base :: "Stats \<Rightarrow> W64" where
  "base s = mem s"

text \<open>\<open>#define STATS_SIZE 1024*10\<close>, converted to \<open>W64\<close> where it meets \<open>stat_offset\<close>.\<close>

definition STATS_SIZE :: W64 where
  "STATS_SIZE = 1024 * 10"

subsection \<open>Registry nodes\<close>

text \<open>
  A leaf of the registry is a \<open>StatObjBase*\<close>; the virtual calls through it dispatch
  on the dynamic class, so a leaf reference carries its class and the index of the
  object in the object store below.
\<close>

datatype leaf_ref = ObjRef nat | ArrRef nat

text \<open>
  \<open>class Statable\<close>: the registry tree, with the fields \<open>childNodes\<close>, \<open>leafs\<close>,
  \<open>name\<close> and \<open>default_stats\<close>. The tree of \<open>Statable*\<close> is acyclic and is held by
  value; the non-owning \<open>parent\<close> back pointer is read by no function of the header
  and is left out.
\<close>

datatype Statable =
  Statable (childNodes: "Statable list") (leafs: "leaf_ref list")
    (node_name: string) (node_default_stats: "Stats option")


definition add_leaf :: "leaf_ref \<Rightarrow> Statable \<Rightarrow> Statable" where
  "add_leaf edge node =
     Statable (childNodes node) (leafs node @ [edge]) (node_name node) (node_default_stats node)"

definition get_default_stats :: "Statable \<Rightarrow> Stats option" where
  "get_default_stats node = node_default_stats node"

text \<open>
  The singleton builder: the root of the registry and the offset cursor.
  \<open>get_offset(int size)\<close> returns the cursor, advances it by \<open>size\<close> (the \<open>int\<close> is
  sign-extended to 64 bits and the sum wraps), and asserts that the advanced cursor is
  below \<open>STATS_SIZE\<close>.
\<close>

record StatsBuilder =
  rootNode :: Statable
  stat_offset :: W64

definition get_offset :: "c_int \<Rightarrow> StatsBuilder \<Rightarrow> error + (W64 \<times> StatsBuilder)" where
  "get_offset sz b =
     (let ret_val = stat_offset b;
          b' = b\<lparr>stat_offset := stat_offset b + scast sz\<rparr>
      in if stat_offset b' < STATS_SIZE then Inr (ret_val, b') else Inl AssertionFailed)"

subsection \<open>Counter descriptors\<close>

text \<open>
  \<open>StatObjBase\<close> holds \<open>default_stats\<close> and \<open>name\<close>. \<open>StatObj<T>\<close> adds \<open>offset\<close> and
  the cached pointer \<open>default_var\<close> (null is 0); the template argument \<open>T\<close> is kept as
  \<open>sizeof_T\<close>. \<open>StatArray<T,size>\<close> has the same fields and the template argument
  \<open>size\<close>.
\<close>

record StatObjBase =
  default_stats :: "Stats option"
  name :: string

record StatObj = StatObjBase +
  sizeof_T :: nat
  offset :: W64
  default_var :: W64

record StatArray = StatObjBase +
  arr_sizeof_T :: nat
  arr_size :: c_int
  arr_offset :: W64
  arr_default_var :: W64

text \<open>
  The program state: the memory, the singleton \<open>StatsBuilder::_builder\<close>, and the
  descriptor objects, addressed by index.
\<close>

record world =
  heap :: memory
  builder :: StatsBuilder
  objs :: "nat \<Rightarrow> StatObj"
  arrs :: "nat \<Rightarrow> StatArray"

text \<open>
  Modelled from the spec: \<open>StatObjBase::set_default_stats\<close> is declared in the header
  and defined elsewhere. The spec's \<open>set_target(arena)\<close> "rebinds which arena this
  descriptor's arithmetic resolves against": it assigns \<open>default_stats\<close>.
\<close>

definition StatObjBase_set_default_stats ::
  "Stats option \<Rightarrow> 'a StatObjBase_scheme \<Rightarrow> 'a StatObjBase_scheme" where
  "StatObjBase_set_default_stats stats x = x\<lparr>default_stats := stats\<rparr>"

subsubsection \<open>StatObj\<close>

definition set_default_var_ptr :: "StatObj \<Rightarrow> StatObj" where
  "set_default_var_ptr x =
     (case default_stats x of
        Some s \<Rightarrow> x\<lparr>default_var := base s + offset x\<rparr>
      | None \<Rightarrow> x\<lparr>default_var := 0\<rparr>)"

text \<open>
  The constructor \<open>StatObj(name, parent)\<close> at the object \<open>this\<close>: the base class
  constructor copies the parent's default stats and registers the leaf, then the offset
  is reserved with \<open>get_offset(sizeof(T))\<close> (a \<open>size_t\<close> narrowed to \<open>int\<close>). It
  returns the parent with its new leaf.
\<close>

definition StatObj_ctor ::
  "nat \<Rightarrow> nat \<Rightarrow> string \<Rightarrow> Statable \<Rightarrow> world \<Rightarrow> error + (Statable \<times> world)" where
  "StatObj_ctor this n nm parent w =
     (let ds = get_default_stats parent;
          parent' = add_leaf (ObjRef this) parent
      in case get_offset (ucast (of_nat n :: W64)) (builder w) of
           Inl e \<Rightarrow> Inl e
         | Inr (off, b') \<Rightarrow>
             Inr (parent',
                  w\<lparr>builder := b',
                    objs := (objs w)(this := set_default_var_ptr
                      \<lparr>default_stats = ds, name = nm, sizeof_T = n, offset = off,
                       default_var = 0\<rparr>)\<rparr>))"

definition StatObj_set_default_stats :: "nat \<Rightarrow> Stats option \<Rightarrow> world \<Rightarrow> world" where
  "StatObj_set_default_stats this stats w =
     w\<lparr>objs := (objs w)(this :=
          set_default_var_ptr (StatObjBase_set_default_stats stats (objs w this)))\<rparr>"

text \<open>\<open>operator++(int)\<close>, \<open>operator++()\<close>, \<open>operator--(int)\<close>, \<open>operator--()\<close>.\<close>

definition op_post_inc :: "nat \<Rightarrow> world \<Rightarrow> error + (nat \<times> world)" where
  "op_post_inc this w =
     (let x = objs w this; a = default_var x; n = sizeof_T x
      in if a = 0 then Inl AssertionFailed
         else let ret = load (heap w) a n
              in Inr (ret, w\<lparr>heap := store (heap w) a n (T_add n ret 1)\<rparr>))"

definition op_pre_inc :: "nat \<Rightarrow> world \<Rightarrow> error + (nat \<times> world)" where
  "op_pre_inc this w =
     (let x = objs w this; a = default_var x; n = sizeof_T x
      in if a = 0 then Inl AssertionFailed
         else let h = store (heap w) a n (T_add n (load (heap w) a n) 1)
              in Inr (load h a n, w\<lparr>heap := h\<rparr>))"

definition op_post_dec :: "nat \<Rightarrow> world \<Rightarrow> error + (nat \<times> world)" where
  "op_post_dec this w =
     (let x = objs w this; a = default_var x; n = sizeof_T x
      in if a = 0 then Inl AssertionFailed
         else let ret = load (heap w) a n
              in Inr (ret, w\<lparr>heap := store (heap w) a n (T_sub n ret 1)\<rparr>))"

definition op_pre_dec :: "nat \<Rightarrow> world \<Rightarrow> error + (nat \<times> world)" where
  "op_pre_dec this w =
     (let x = objs w this; a = default_var x; n = sizeof_T x
      in if a = 0 then Inl AssertionFailed
         else let h = store (heap w) a n (T_sub n (load (heap w) a n) 1)
              in Inr (load h a n, w\<lparr>heap := h\<rparr>))"

text \<open>
  The binary operators \<open>+ - * /\<close>, each with a literal \<open>b\<close> of type \<open>T\<close> and with
  another \<open>StatObj<T>\<close>. A literal is read as a value of \<open>T\<close>, that is modulo
  \<open>256 ^ sizeof(T)\<close>. Integer division by zero traps.
\<close>

definition op_plus :: "nat \<Rightarrow> nat \<Rightarrow> world \<Rightarrow> error + (nat \<times> world)" where
  "op_plus this b w =
     (let x = objs w this; n = sizeof_T x
      in if default_var x = 0 then Inl AssertionFailed
         else Inr (T_add n (load (heap w) (default_var x) n) b, w))"

definition op_plus_obj :: "nat \<Rightarrow> nat \<Rightarrow> world \<Rightarrow> error + (nat \<times> world)" where
  "op_plus_obj this statObj w =
     (let x = objs w this; y = objs w statObj; n = sizeof_T x
      in if default_var x = 0 then Inl AssertionFailed
         else if default_var y = 0 then Inl AssertionFailed
         else Inr (T_add n (load (heap w) (default_var x) n) (load (heap w) (default_var y) n), w))"

definition op_minus :: "nat \<Rightarrow> nat \<Rightarrow> world \<Rightarrow> error + (nat \<times> world)" where
  "op_minus this b w =
     (let x = objs w this; n = sizeof_T x
      in if default_var x = 0 then Inl AssertionFailed
         else Inr (T_sub n (load (heap w) (default_var x) n) b, w))"

definition op_minus_obj :: "nat \<Rightarrow> nat \<Rightarrow> world \<Rightarrow> error + (nat \<times> world)" where
  "op_minus_obj this statObj w =
     (let x = objs w this; y = objs w statObj; n = sizeof_T x
      in if default_var x = 0 then Inl AssertionFailed
         else if default_var y = 0 then Inl AssertionFailed
         else Inr (T_sub n (load (heap w) (default_var x) n) (load (heap w) (default_var y) n), w))"

definition op_times :: "nat \<Rightarrow> nat \<Rightarrow> world \<Rightarrow> error + (nat \<times> world)" where
  "op_times this b w =
     (let x = objs w this; n = sizeof_T x
      in if default_var x = 0 then Inl AssertionFailed
         else Inr (T_mul n (load (heap w) (default_var x) n) b, w))"

definition op_times_obj :: "nat \<Rightarrow> nat \<Rightarrow> world \<Rightarrow> error + (nat \<times> world)" where
  "op_times_obj this statObj w =
     (let x = objs w this; y = objs w statObj; n = sizeof_T x
      in if default_var x = 0 then Inl AssertionFailed
         else if default_var y = 0 then Inl AssertionFailed
         else Inr (T_mul n (load (heap w) (default_var x) n) (load (heap w) (default_var y) n), w))"

definition op_divide :: "nat \<Rightarrow> nat \<Rightarrow> world \<Rightarrow> error + (nat \<times> world)" where
  "op_divide this b w =
     (let x = objs w this; n = sizeof_T x
      in if default_var x = 0 then Inl AssertionFailed
         else if b mod 256 ^ n = 0 then Inl DivisionByZero
         else Inr (load (heap w) (default_var x) n div (b mod 256 ^ n), w))"

definition op_divide_obj :: "nat \<Rightarrow> nat \<Rightarrow> world \<Rightarrow> error + (nat \<times> world)" where
  "op_divide_obj this statObj w =
     (let x = objs w this; y = objs w statObj; n = sizeof_T x
      in if default_var x = 0 then Inl AssertionFailed
         else if default_var y = 0 then Inl AssertionFailed
         else if load (heap w) (default_var y) n = 0 then Inl DivisionByZero
         else Inr (load (heap w) (default_var x) n div load (heap w) (default_var y) n, w))"

text \<open>
  \<open>operator()(Stats *stats)\<close> returns the reference \<open>*(T*)(stats->base() + offset)\<close>;
  a reference is the address it denotes.
\<close>

definition op_call :: "nat \<Rightarrow> Stats \<Rightarrow> world \<Rightarrow> W64" where
  "op_call this stats w = base stats + offset (objs w this)"

text \<open>
  The two dumps. An \<open>ostream\<close> is the string written so far; \<open>os << var\<close> appends
  \<open>fmt var\<close>, where \<open>fmt\<close> is the number formatter of the stream class (defined
  outside the header). A \<open>YAML::Emitter\<close> is the list of the items streamed into it:
  the manipulators, the key strings and the numeric values.
\<close>

datatype yaml_item =
  YAML_Key | YAML_Value | YAML_Flow | YAML_Block | YAML_BeginSeq | YAML_EndSeq
  | YAML_str string | YAML_num nat

definition StatObj_dump_os ::
  "(nat \<Rightarrow> string) \<Rightarrow> nat \<Rightarrow> string \<Rightarrow> Stats \<Rightarrow> world \<Rightarrow> error + (string \<times> world)" where
  "StatObj_dump_os fmt this os stats w =
     (let x = objs w this;
          var = load (heap w) (op_call this stats w) (sizeof_T x)
      in Inr (os @ name x @ '':'' @ fmt var @ [CHR 0x0A], w))"

definition StatObj_dump_yaml ::
  "nat \<Rightarrow> yaml_item list \<Rightarrow> Stats \<Rightarrow> world \<Rightarrow> error + (yaml_item list \<times> world)" where
  "StatObj_dump_yaml this out stats w =
     (let x = objs w this
      in if default_var x = 0 then Inl AssertionFailed
         else let var = load (heap w) (op_call this stats w) (sizeof_T x)
              in Inr (out @ [YAML_Key, YAML_str (name x)] @ [YAML_Value, YAML_num var], w))"

text \<open>\<open>add_stats(dest_stats, src_stats)\<close>: \<open>dest_var += (*this)(&src_stats)\<close>. No assertion.\<close>

definition StatObj_add_stats :: "nat \<Rightarrow> Stats \<Rightarrow> Stats \<Rightarrow> world \<Rightarrow> world" where
  "StatObj_add_stats this dest_stats src_stats w =
     (let n = sizeof_T (objs w this);
          dest_var = op_call this dest_stats w;
          src_var = op_call this src_stats w
      in w\<lparr>heap := store (heap w) dest_var n
                      (T_add n (load (heap w) dest_var n) (load (heap w) src_var n))\<rparr>)"

subsubsection \<open>StatArray\<close>

definition arr_set_default_var_ptr :: "StatArray \<Rightarrow> StatArray" where
  "arr_set_default_var_ptr x =
     (case default_stats x of
        Some s \<Rightarrow> x\<lparr>arr_default_var := base s + arr_offset x\<rparr>
      | None \<Rightarrow> x\<lparr>arr_default_var := 0\<rparr>)"

text \<open>
  The constructor \<open>StatArray(name, parent)\<close> reserves \<open>get_offset(sizeof(T) * size)\<close>:
  the product is a \<open>size_t\<close> (\<open>size\<close> sign-extended, the product modulo \<open>2 ^ 64\<close>)
  narrowed to the \<open>int\<close> parameter.
\<close>

definition StatArray_ctor ::
  "nat \<Rightarrow> nat \<Rightarrow> c_int \<Rightarrow> string \<Rightarrow> Statable \<Rightarrow> world \<Rightarrow> error + (Statable \<times> world)" where
  "StatArray_ctor this n sz nm parent w =
     (let ds = get_default_stats parent;
          parent' = add_leaf (ArrRef this) parent
      in case get_offset (ucast (of_nat n * scast sz :: W64)) (builder w) of
           Inl e \<Rightarrow> Inl e
         | Inr (off, b') \<Rightarrow>
             Inr (parent',
                  w\<lparr>builder := b',
                    arrs := (arrs w)(this := arr_set_default_var_ptr
                      \<lparr>default_stats = ds, name = nm, arr_sizeof_T = n, arr_size = sz,
                       arr_offset = off, arr_default_var = 0\<rparr>)\<rparr>))"

definition StatArray_set_default_stats :: "nat \<Rightarrow> Stats option \<Rightarrow> world \<Rightarrow> world" where
  "StatArray_set_default_stats this stats w =
     w\<lparr>arrs := (arrs w)(this :=
          arr_set_default_var_ptr (StatObjBase_set_default_stats stats (arrs w this)))\<rparr>"

text \<open>
  \<open>operator[](const int index)\<close>: \<open>assert(index < size)\<close> compares two \<open>int\<close>s;
  \<open>assert(default_var)\<close>; the result is the reference
  \<open>*(T*)(default_var + (index * sizeof(T)))\<close>. The product \<open>index * sizeof(T)\<close> is a
  \<open>size_t\<close>, and adding it to the \<open>T*\<close> \<open>default_var\<close> advances the address by that
  many elements of \<open>sizeof(T)\<close> bytes.
\<close>

definition op_index :: "nat \<Rightarrow> c_int \<Rightarrow> world \<Rightarrow> error + (W64 \<times> world)" where
  "op_index this index w =
     (let x = arrs w this; n = arr_sizeof_T x
      in if \<not> (index <s arr_size x) then Inl AssertionFailed
         else if arr_default_var x = 0 then Inl AssertionFailed
         else Inr (arr_default_var x + (scast index * of_nat n) * of_nat n, w))"

text \<open>
  \<open>operator()(Stats *stats)\<close> returns the reference \<open>*(BaseArr*)(stats->base() + offset)\<close>
  to the whole array; \<open>elem a n i\<close> is the address of \<open>arr[i]\<close> for the array at \<open>a\<close>
  with elements of \<open>n\<close> bytes.
\<close>

definition arr_op_call :: "nat \<Rightarrow> Stats \<Rightarrow> world \<Rightarrow> W64" where
  "arr_op_call this stats w = base stats + arr_offset (arrs w this)"

definition elem :: "W64 \<Rightarrow> nat \<Rightarrow> nat \<Rightarrow> W64" where
  "elem a n i = a + of_nat i * of_nat n"

text \<open>
  The macro \<open>foreach(i, size)\<close> comes from a header outside this one; it runs its body
  for \<open>i = 0, 1, ..., size - 1\<close>. \<open>indices x\<close> lists these values of \<open>i\<close>.
\<close>

definition indices :: "StatArray \<Rightarrow> nat list" where
  "indices x = [0 ..< nat (sint (arr_size x))]"

definition StatArray_dump_os ::
  "(nat \<Rightarrow> string) \<Rightarrow> nat \<Rightarrow> string \<Rightarrow> Stats \<Rightarrow> world \<Rightarrow> error + (string \<times> world)" where
  "StatArray_dump_os fmt this os stats w =
     (let x = arrs w this; n = arr_sizeof_T x;
          os1 = os @ name x @ '': '';
          arr = arr_op_call this stats w;
          os2 = fold (\<lambda>i os'. os' @ fmt (load (heap w) (elem arr n i) n) @ '' '') (indices x) os1
      in Inr (os2 @ [CHR 0x0A], w))"

definition StatArray_dump_yaml ::
  "nat \<Rightarrow> yaml_item list \<Rightarrow> Stats \<Rightarrow> world \<Rightarrow> error + (yaml_item list \<times> world)" where
  "StatArray_dump_yaml this out stats w =
     (let x = arrs w this; n = arr_sizeof_T x;
          out1 = out @ [YAML_Key, YAML_str (name x)] @ [YAML_Value] @ [YAML_Flow] @ [YAML_BeginSeq];
          arr = arr_op_call this stats w;
          out2 = fold (\<lambda>i out'. out' @ [YAML_num (load (heap w) (elem arr n i) n)]) (indices x) out1
      in Inr (out2 @ [YAML_EndSeq] @ [YAML_Block], w))"

definition StatArray_add_stats :: "nat \<Rightarrow> Stats \<Rightarrow> Stats \<Rightarrow> world \<Rightarrow> world" where
  "StatArray_add_stats this dest_stats src_stats w =
     (let x = arrs w this; n = arr_sizeof_T x;
          dest_arr = arr_op_call this dest_stats w;
          src_arr = arr_op_call this src_stats w
      in fold (\<lambda>i w'. w'\<lparr>heap := store (heap w') (elem dest_arr n i) n
                 (T_add n (load (heap w') (elem dest_arr n i) n)
                          (load (heap w') (elem src_arr n i) n))\<rparr>)
           (indices x) w)"

subsection \<open>Merging over the registry\<close>




subsection \<open>The initial state and the statements of a caller\<close>

text \<open>
  Before any counter is declared the builder's cursor is 0 and its root has no
  children (\<open>StatsBuilder()\<close>). Memory is zero-filled, as the blocks of fresh \<open>Stats\<close>
  objects are, and no descriptor has been constructed.
\<close>

definition blank_obj :: StatObj where
  "blank_obj = \<lparr>default_stats = None, name = [], sizeof_T = 0, offset = 0, default_var = 0\<rparr>"

definition blank_arr :: StatArray where
  "blank_arr = \<lparr>default_stats = None, name = [], arr_sizeof_T = 0, arr_size = 0,
                 arr_offset = 0, arr_default_var = 0\<rparr>"

definition world0 :: world where
  "world0 = \<lparr>heap = (\<lambda>_. 0),
             builder = \<lparr>rootNode = Statable [] [] [] None, stat_offset = 0\<rparr>,
             objs = (\<lambda>_. blank_obj), arrs = (\<lambda>_. blank_arr)\<rparr>"

text \<open>The caller's statement \<open>arr[index] = v\<close> on the array descriptor \<open>this\<close>.\<close>

definition assign_index :: "nat \<Rightarrow> c_int \<Rightarrow> nat \<Rightarrow> world \<Rightarrow> error + world" where
  "assign_index this index v w =
     (case op_index this index w of
        Inl e \<Rightarrow> Inl e
      | Inr (a, w') \<Rightarrow> Inr (w'\<lparr>heap := store (heap w') a (arr_sizeof_T (arrs w' this)) v\<rparr>))"

text \<open>The caller's loop \<open>for each i: arr[i] = i\<close> over the listed indices.\<close>

fun write_each :: "nat \<Rightarrow> nat list \<Rightarrow> world \<Rightarrow> error + world" where
  "write_each this [] w = Inr w"
| "write_each this (i # is) w =
     (case assign_index this (of_nat i) i w of
        Inl e \<Rightarrow> Inl e
      | Inr w' \<Rightarrow> write_each this is w')"

text \<open>
  Modelled from the spec: the stream's \<open>operator<<\<close> for numbers is defined outside
  the header. The spec's example dump prints counters in decimal (\<open>hits: 3\<close>,
  \<open>latency_hist: 0 0 7 0\<close>); \<open>decimal\<close> is that formatter.
\<close>

fun decimal :: "nat \<Rightarrow> string" where
  "decimal n =
     (if n < 10 then [''0123456789'' ! n]
      else decimal (n div 10) @ [''0123456789'' ! (n mod 10)])"

declare decimal.simps [simp del]

text \<open>
  The eight binary operators of \<open>StatObj<T>\<close> under one name, to quantify over them:
  the operator symbol and the right operand, a literal or another descriptor.
\<close>

datatype binop = OpAdd | OpSub | OpMul | OpDiv

datatype operand = Lit nat | Obj nat

fun binary_operator ::
  "binop \<Rightarrow> nat \<Rightarrow> operand \<Rightarrow> world \<Rightarrow> error + (nat \<times> world)" where
  "binary_operator OpAdd this (Lit b) w = op_plus this b w"
| "binary_operator OpAdd this (Obj statObj) w = op_plus_obj this statObj w"
| "binary_operator OpSub this (Lit b) w = op_minus this b w"
| "binary_operator OpSub this (Obj statObj) w = op_minus_obj this statObj w"
| "binary_operator OpMul this (Lit b) w = op_times this b w"
| "binary_operator OpMul this (Obj statObj) w = op_times_obj this statObj w"
| "binary_operator OpDiv this (Lit b) w = op_divide this b w"
| "binary_operator OpDiv this (Obj statObj) w = op_divide_obj this statObj w"

text \<open>The value of the right operand, and the value the operator computes in \<open>T\<close>.\<close>

fun operand_value :: "operand \<Rightarrow> nat \<Rightarrow> world \<Rightarrow> nat" where
  "operand_value (Lit b) n w = b mod 256 ^ n"
| "operand_value (Obj statObj) n w = load (heap w) (default_var (objs w statObj)) n"

fun operand_target_set :: "operand \<Rightarrow> world \<Rightarrow> bool" where
  "operand_target_set (Lit b) w = True"
| "operand_target_set (Obj statObj) w = (default_var (objs w statObj) \<noteq> 0)"

fun T_binop :: "binop \<Rightarrow> nat \<Rightarrow> nat \<Rightarrow> nat \<Rightarrow> nat" where
  "T_binop OpAdd n a b = T_add n a b"
| "T_binop OpSub n a b = T_sub n a b"
| "T_binop OpMul n a b = T_mul n a b"
| "T_binop OpDiv n a b = a div b"

text \<open>
  The spec's example registry: under a node \<open>cache\<close> whose default stats is the
  arena \<open>X\<close>, the scalar \<open>hits\<close>, the array \<open>latency_hist[4]\<close> and the scalar
  \<open>misses\<close>, all of type \<open>W64\<close>. \<open>example_world\<close> is the state the three
  constructors leave (lemma \<open>example_world_constructed\<close>); \<open>Y\<close> is a second arena.
\<close>

definition X :: Stats where
  "X = \<lparr>mem = 4096\<rparr>"

definition Y :: Stats where
  "Y = \<lparr>mem = 16384\<rparr>"

definition example_world :: world where
  "example_world =
     \<lparr>heap = (\<lambda>_. 0),
      builder = \<lparr>rootNode = Statable [] [] [] None, stat_offset = 48\<rparr>,
      objs = (\<lambda>_. blank_obj)
        (0 := \<lparr>default_stats = Some X, name = ''hits'', sizeof_T = 8, offset = 0,
                default_var = 4096\<rparr>,
         1 := \<lparr>default_stats = Some X, name = ''misses'', sizeof_T = 8, offset = 40,
                default_var = 4136\<rparr>),
      arrs = (\<lambda>_. blank_arr)
        (0 := \<lparr>default_stats = Some X, name = ''latency_hist'', arr_sizeof_T = 8,
                arr_size = 4, arr_offset = 8, arr_default_var = 4104\<rparr>)\<rparr>"

definition example_tree :: Statable where
  "example_tree = Statable [] [ObjRef 0, ArrRef 0, ObjRef 1] ''cache'' (Some X)"

text \<open>The addresses of the \<open>n\<close> bytes at \<open>a\<close>.\<close>

definition cells :: "W64 \<Rightarrow> nat \<Rightarrow> W64 set" where
  "cells a n = (\<lambda>k. a + of_nat k) ` {..<n}"

subsection \<open>Sequences of calls on scalar descriptors\<close>

text \<open>
  The public member functions of \<open>StatObj<T>\<close> as calls, to quantify over every
  sequence of operations on the descriptors of a state. A call that returns a value
  keeps only the state; the first failed assertion ends the run.
\<close>

datatype StatObj_call =
    SetDefaultStats "Stats option"
  | PostInc | PreInc | PostDec | PreDec
  | Binary binop operand
  | Call Stats
  | DumpOs "nat \<Rightarrow> string" string Stats
  | DumpYaml "yaml_item list" Stats
  | AddStats Stats Stats

fun exec :: "nat \<Rightarrow> StatObj_call \<Rightarrow> world \<Rightarrow> error + world" where
  "exec this (SetDefaultStats stats) w = Inr (StatObj_set_default_stats this stats w)"
| "exec this PostInc w = map_sum id snd (op_post_inc this w)"
| "exec this PreInc w = map_sum id snd (op_pre_inc this w)"
| "exec this PostDec w = map_sum id snd (op_post_dec this w)"
| "exec this PreDec w = map_sum id snd (op_pre_dec this w)"
| "exec this (Binary f r) w = map_sum id snd (binary_operator f this r w)"
| "exec this (Call stats) w = Inr w"
| "exec this (DumpOs fmt os stats) w = map_sum id snd (StatObj_dump_os fmt this os stats w)"
| "exec this (DumpYaml out stats) w = map_sum id snd (StatObj_dump_yaml this out stats w)"
| "exec this (AddStats dest_stats src_stats) w = Inr (StatObj_add_stats this dest_stats src_stats w)"

fun run :: "(nat \<times> StatObj_call) list \<Rightarrow> world \<Rightarrow> error + world" where
  "run [] w = Inr w"
| "run ((this, c) # cs) w = (case exec this c w of Inl e \<Rightarrow> Inl e | Inr w' \<Rightarrow> run cs w')"

text \<open>The mutating arithmetic of a scalar descriptor: the four increments and decrements.\<close>

fun mutating :: "StatObj_call \<Rightarrow> bool" where
  "mutating PostInc = True"
| "mutating PreInc = True"
| "mutating PostDec = True"
| "mutating PreDec = True"
| "mutating _ = False"

text \<open>
  The address a descriptor resolves its default accesses to: the base of its default
  stats plus its offset, null without default stats.
\<close>

definition resolved :: "StatObj \<Rightarrow> W64" where
  "resolved x = (case default_stats x of None \<Rightarrow> 0 | Some s \<Rightarrow> base s + offset x)"

text \<open>
  An arena is a block of \<open>STATS_SIZE\<close> bytes at \<open>base\<close> that does not run past the end
  of the address space; two distinct arenas do not overlap.
\<close>

definition arena :: "Stats \<Rightarrow> bool" where
  "arena s = (unat (base s) + unat STATS_SIZE \<le> 2 ^ 64)"

definition separate :: "Stats \<Rightarrow> Stats \<Rightarrow> bool" where
  "separate s t =
     (unat (base s) + unat STATS_SIZE \<le> unat (base t) \<or>
      unat (base t) + unat STATS_SIZE \<le> unat (base s))"

subsection \<open>Declaring counters in sequence\<close>

text \<open>
  A declaration names the class of a counter and its template arguments; the
  \<open>k\<close>-th declaration of a sequence constructs the object with index \<open>k\<close>. The
  constructors run in order against the one builder and share the parent node.
\<close>

datatype decl = DeclObj nat string | DeclArr nat c_int string

fun decl_ref :: "nat \<Rightarrow> decl \<Rightarrow> leaf_ref" where
  "decl_ref k (DeclObj n nm) = ObjRef k"
| "decl_ref k (DeclArr n sz nm) = ArrRef k"

fun construct :: "nat \<Rightarrow> decl \<Rightarrow> Statable \<Rightarrow> world \<Rightarrow> error + (Statable \<times> world)" where
  "construct this (DeclObj n nm) parent w = StatObj_ctor this n nm parent w"
| "construct this (DeclArr n sz nm) parent w = StatArray_ctor this n sz nm parent w"

fun construct_all ::
  "nat \<Rightarrow> decl list \<Rightarrow> Statable \<Rightarrow> world \<Rightarrow> error + (Statable \<times> world)" where
  "construct_all k [] parent w = Inr (parent, w)"
| "construct_all k (d # ds) parent w =
     (case construct k d parent w of
        Inl e \<Rightarrow> Inl e
      | Inr (parent', w') \<Rightarrow> construct_all (Suc k) ds parent' w')"

text \<open>
  The byte range of a descriptor inside any arena: it starts at \<open>offset\<close> and has
  \<open>sizeof(T)\<close> bytes for a scalar, \<open>sizeof(T) * size\<close> bytes for an array.
\<close>

fun leaf_offset :: "world \<Rightarrow> leaf_ref \<Rightarrow> nat" where
  "leaf_offset w (ObjRef i) = unat (offset (objs w i))"
| "leaf_offset w (ArrRef i) = unat (arr_offset (arrs w i))"

fun leaf_size :: "world \<Rightarrow> leaf_ref \<Rightarrow> nat" where
  "leaf_size w (ObjRef i) = sizeof_T (objs w i)"
| "leaf_size w (ArrRef i) = arr_sizeof_T (arrs w i) * nat (sint (arr_size (arrs w i)))"

definition apart :: "world \<Rightarrow> leaf_ref \<Rightarrow> leaf_ref \<Rightarrow> bool" where
  "apart w l l' =
     (leaf_offset w l + leaf_size w l \<le> leaf_offset w l' \<or>
      leaf_offset w l' + leaf_size w l' \<le> leaf_offset w l)"

text \<open>
  The byte size of a declared counter fits the parameter of \<open>get_offset(int size)\<close>:
  it is a non-negative \<open>int\<close>.
\<close>

fun decl_size :: "decl \<Rightarrow> nat" where
  "decl_size (DeclObj n nm) = n"
| "decl_size (DeclArr n sz nm) = n * nat (sint sz)"

fun fits_int :: "decl \<Rightarrow> bool" where
  "fits_int (DeclObj n nm) = (n < 2 ^ 31)"
| "fits_int (DeclArr n sz nm) = (0 \<le> sint sz \<and> n * nat (sint sz) < 2 ^ 31)"

subsection \<open>The leaves of a registry and their values\<close>









definition same_descriptors :: "world \<Rightarrow> world \<Rightarrow> bool" where
  "same_descriptors w w' = (objs w' = objs w \<and> arrs w' = arrs w)"

text \<open>The body of the loop of \<open>StatArray::add_stats\<close>: \<open>dest_arr[i] += src_arr[i]\<close>.\<close>

definition add_elem :: "W64 \<Rightarrow> W64 \<Rightarrow> nat \<Rightarrow> nat \<Rightarrow> world \<Rightarrow> world" where
  "add_elem dest_arr src_arr n i w =
     w\<lparr>heap := store (heap w) (elem dest_arr n i) n
                  (T_add n (load (heap w) (elem dest_arr n i) n)
                           (load (heap w) (elem src_arr n i) n))\<rparr>"



subsection \<open>Sequences of calls on array descriptors\<close>

text \<open>
  The public member functions of \<open>StatArray<T,size>\<close> as calls, and runs of calls on
  scalar and array descriptors in any order.
\<close>

datatype StatArray_call =
    ArrSetDefaultStats "Stats option"
  | Index c_int
  | ArrCall Stats
  | ArrDumpOs "nat \<Rightarrow> string" string Stats
  | ArrDumpYaml "yaml_item list" Stats
  | ArrAddStats Stats Stats

fun arr_exec :: "nat \<Rightarrow> StatArray_call \<Rightarrow> world \<Rightarrow> error + world" where
  "arr_exec this (ArrSetDefaultStats stats) w = Inr (StatArray_set_default_stats this stats w)"
| "arr_exec this (Index index) w = map_sum id snd (op_index this index w)"
| "arr_exec this (ArrCall stats) w = Inr w"
| "arr_exec this (ArrDumpOs fmt os stats) w = map_sum id snd (StatArray_dump_os fmt this os stats w)"
| "arr_exec this (ArrDumpYaml out stats) w = map_sum id snd (StatArray_dump_yaml this out stats w)"
| "arr_exec this (ArrAddStats dest_stats src_stats) w =
     Inr (StatArray_add_stats this dest_stats src_stats w)"

datatype call = OnObj nat StatObj_call | OnArr nat StatArray_call

fun run_calls :: "call list \<Rightarrow> world \<Rightarrow> error + world" where
  "run_calls [] w = Inr w"
| "run_calls (OnObj this c # cs) w =
     (case exec this c w of Inl e \<Rightarrow> Inl e | Inr w' \<Rightarrow> run_calls cs w')"
| "run_calls (OnArr this c # cs) w =
     (case arr_exec this c w of Inl e \<Rightarrow> Inl e | Inr w' \<Rightarrow> run_calls cs w')"

text \<open>The address an array descriptor resolves its default accesses from.\<close>

definition arr_resolved :: "StatArray \<Rightarrow> W64" where
  "arr_resolved x = (case default_stats x of None \<Rightarrow> 0 | Some s \<Rightarrow> base s + arr_offset x)"

section \<open>Properties\<close>

subsection \<open>Reserving offsets\<close>

lemma sint_c_int_range: "- 2147483648 \<le> sint (sz :: c_int) \<and> sint sz < 2147483648"
  using sint_ge [of sz] sint_lt [of sz] by simp

lemma advance_uint:
  "uint ((a :: W64) + scast (sz :: c_int)) = (uint a + sint sz) mod 2 ^ 64"
proof -
  have "(scast sz :: W64) = word_of_int (sint sz)" by simp
  then have "a + scast sz = word_of_int (uint a + sint sz)" by simp
  then show ?thesis by (simp only: uint_word_of_int) simp
qed

lemma advance_cases:
  assumes "uint (a :: W64) < 10240"
  shows "(0 \<le> uint a + sint (sz :: c_int) \<longrightarrow> uint (a + scast sz) = uint a + sint sz) \<and>
         (uint a + sint sz < 0 \<longrightarrow> 10240 \<le> uint (a + scast sz))"
proof -
  let ?k = "uint a + sint sz"
  have nn: "0 \<le> uint a" by simp
  have r1: "- 2147483648 \<le> sint sz" and r2: "sint sz < 2147483648"
    using sint_c_int_range [of sz] by simp_all
  have pos: "uint (a + scast sz) = ?k" if "0 \<le> ?k"
  proof -
    have "?k < 18446744073709551616" using assms r2 by linarith
    then have "?k mod 2 ^ 64 = ?k" using that by (simp add: mod_pos_pos_trivial)
    then show ?thesis by (simp only: advance_uint)
  qed
  have neg: "10240 \<le> uint (a + scast sz)" if "?k < 0"
  proof -
    have "0 \<le> ?k + 18446744073709551616" using nn r1 by linarith
    moreover have "?k + 18446744073709551616 < 18446744073709551616" using that by linarith
    ultimately have "(?k + 18446744073709551616) mod 18446744073709551616 = ?k + 18446744073709551616"
      by (rule mod_pos_pos_trivial)
    then have "?k mod 2 ^ 64 = ?k + 18446744073709551616" by simp
    then have "uint (a + scast sz) = ?k + 18446744073709551616" by (simp only: advance_uint)
    then show ?thesis using nn r1 by linarith
  qed
  show ?thesis using pos neg by blast
qed

text \<open>
  C2 (as the code has it). From any cursor below \<open>STATS_SIZE\<close> (every cursor the
  builder reaches without aborting), \<open>get_offset(size)\<close> succeeds exactly when the
  advanced cursor \<open>stat_offset + size\<close> lies in \<open>[0, STATS_SIZE)\<close>; it then returns
  the old cursor and stores the advanced one. A reservation that ends exactly at
  \<open>STATS_SIZE\<close>, or beyond it, fails the assertion.
\<close>

theorem get_offset_succeeds_iff:
  assumes "stat_offset b < STATS_SIZE"
  shows "get_offset sz b =
     (if 0 \<le> uint (stat_offset b) + sint sz \<and> uint (stat_offset b) + sint sz < 10240
      then Inr (stat_offset b, b\<lparr>stat_offset := stat_offset b + scast sz\<rparr>)
      else Inl AssertionFailed) \<and>
     (0 \<le> uint (stat_offset b) + sint sz \<longrightarrow>
      uint (stat_offset b + scast sz) = uint (stat_offset b) + sint sz)"
proof -
  let ?a = "stat_offset b"
  have a: "uint ?a < 10240"
    using assms by (simp add: STATS_SIZE_def word_less_def)
  have lt: "(?a + scast sz < STATS_SIZE) = (uint (?a + scast sz) < 10240)"
    by (simp add: word_less_def STATS_SIZE_def)
  note c = advance_cases [OF a, of sz]
  have adv: "0 \<le> uint ?a + sint sz \<longrightarrow> uint (?a + scast sz) = uint ?a + sint sz"
    using c by blast
  have res: "get_offset sz b =
     (if 0 \<le> uint ?a + sint sz \<and> uint ?a + sint sz < 10240
      then Inr (?a, b\<lparr>stat_offset := ?a + scast sz\<rparr>)
      else Inl AssertionFailed)"
  proof (cases "0 \<le> uint ?a + sint sz")
    case True
    then have "uint (?a + scast sz) = uint ?a + sint sz" using c by blast
    then show ?thesis using True lt by (simp add: get_offset_def Let_def)
  next
    case False
    then have "10240 \<le> uint (?a + scast sz)" using c by auto
    then have "\<not> ?a + scast sz < STATS_SIZE" using lt by simp
    then show ?thesis using False by (simp add: get_offset_def Let_def)
  qed
  show ?thesis using res adv by (rule conjI)
qed

theorem get_offset_succeeds_iff_witness:
  "stat_offset \<lparr>rootNode = Statable [] [] [] None, stat_offset = 10000\<rparr> < STATS_SIZE \<and>
   get_offset 239 \<lparr>rootNode = Statable [] [] [] None, stat_offset = 10000\<rparr> =
     Inr (10000, \<lparr>rootNode = Statable [] [] [] None, stat_offset = 10239\<rparr>) \<and>
   get_offset 240 \<lparr>rootNode = Statable [] [] [] None, stat_offset = 10000\<rparr> =
     Inl AssertionFailed"
proof -
  have h: "stat_offset \<lparr>rootNode = Statable [] [] [] None, stat_offset = 10000\<rparr> < STATS_SIZE"
    by (simp add: STATS_SIZE_def)
  show ?thesis
    using h get_offset_succeeds_iff [OF h, of 239] get_offset_succeeds_iff [OF h, of 240]
    by simp
qed

text \<open>
  C2 as stated fails: from the fresh builder, reserving \<open>STATS_SIZE\<close> bytes ends exactly
  at the ceiling and aborts.
\<close>

theorem get_offset_exact_ceiling_aborts:
  "get_offset 10240 \<lparr>rootNode = Statable [] [] [] None, stat_offset = 0\<rparr> = Inl AssertionFailed"
  by (simp add: get_offset_def STATS_SIZE_def)

subsection \<open>Evaluating on concrete states\<close>

lemma load_numeral:
  "load m a (numeral k) = unat (m a) + 256 * load m (a + 1) (pred_numeral k)"
proof -
  have "numeral k = Suc (pred_numeral k)" by (rule numeral_eq_Suc)
  then show ?thesis by (simp only: load.simps)
qed

lemma store_numeral:
  "store m a (numeral k) v = store (m(a := of_nat v)) (a + 1) (pred_numeral k) (v div 256)"
proof -
  have "numeral k = Suc (pred_numeral k)" by (rule numeral_eq_Suc)
  then show ?thesis by (simp only: store.simps)
qed

lemmas ctor_defs = StatArray_ctor_def StatObj_ctor_def world0_def get_offset_def STATS_SIZE_def
  get_default_stats_def add_leaf_def arr_set_default_var_ptr_def set_default_var_ptr_def
  base_def Let_def X_def Y_def

lemma example_world_constructed:
  "(case StatObj_ctor 0 8 ''hits'' (Statable [] [] ''cache'' (Some X)) world0 of
      Inl e \<Rightarrow> None
    | Inr (p1, w1) \<Rightarrow>
        (case StatArray_ctor 0 8 4 ''latency_hist'' p1 w1 of
           Inl e \<Rightarrow> None
         | Inr (p2, w2) \<Rightarrow>
             (case StatObj_ctor 1 8 ''misses'' p2 w2 of
                Inl e \<Rightarrow> None
              | Inr r \<Rightarrow> Some r))) = Some (example_tree, example_world)"
  by (simp add: ctor_defs example_world_def example_tree_def fun_upd_twist)

subsection \<open>Array indexing\<close>

text \<open>
  \<open>operator[]\<close> aborts when \<open>index \<ge> size\<close>, and passes the bounds assertion for
  every \<open>index < size\<close>, negative ones included.
\<close>

lemma op_index_above_aborts:
  "sint (arr_size (arrs w this)) \<le> sint index \<Longrightarrow> op_index this index w = Inl AssertionFailed"
  by (simp add: op_index_def Let_def word_sless_alt)

lemma op_index_below_size:
  "sint index < sint (arr_size (arrs w this)) \<Longrightarrow> arr_default_var (arrs w this) \<noteq> 0 \<Longrightarrow>
   op_index this index w =
     Inr (arr_default_var (arrs w this)
            + (scast index * of_nat (arr_sizeof_T (arrs w this))) * of_nat (arr_sizeof_T (arrs w this)),
          w)"
  by (simp add: op_index_def Let_def word_sless_alt)

text \<open>
  For an index in \<open>[0, size)\<close>, \<open>operator[]\<close> resolves to element \<open>index\<close> of an array
  whose elements are \<open>sizeof(T) * sizeof(T)\<close> bytes apart, while \<open>operator()\<close> and the
  dumps place element \<open>i\<close> at \<open>i * sizeof(T)\<close>.
\<close>

lemma op_index_scales_twice:
  assumes "0 \<le> sint index" and "sint index < sint (arr_size (arrs w this))"
    and "arr_default_var (arrs w this) \<noteq> 0"
  shows "op_index this index w =
     Inr (elem (arr_default_var (arrs w this))
            (arr_sizeof_T (arrs w this) * arr_sizeof_T (arrs w this)) (nat (sint index)), w)"
proof -
  have "(scast index :: W64) = of_nat (nat (sint index))" using assms(1) by simp
  then show ?thesis using assms(2,3)
    by (simp add: op_index_def Let_def word_sless_alt elem_def mult.assoc)
qed

text \<open>
  C9 (the code at the failing input). On \<open>latency_hist[4]\<close> with its target set,
  \<open>operator[](-1)\<close> does not abort: \<open>assert(index < size)\<close> has no lower bound, and
  the call returns a reference 64 bytes below the array's storage.
\<close>

theorem op_index_negative_index_returns:
  "op_index 0 (- 1) example_world = Inr (4040, example_world)"
  by (simp add: op_index_def example_world_def Let_def word_sless_alt)

text \<open>
  C1 (the code at the failing input). On the zero-filled arena \<open>X\<close>, writing \<open>i\<close> at
  index \<open>i\<close> of \<open>latency_hist[4]\<close> through \<open>operator[]\<close> stores at the byte offsets
  \<open>64 * i\<close> from the array's storage (the index is scaled by \<open>sizeof(T)\<close> twice),
  while the YAML dump reads the elements at the byte offsets \<open>8 * i\<close>: it emits
  \<open>[0, 0, 0, 0]\<close>.
\<close>

theorem array_write_then_yaml_dump:
  "indices (arrs example_world 0) = [0, 1, 2, 3] \<and>
   write_each 0 [0, 1, 2, 3] example_world =
     Inr (example_world\<lparr>heap :=
            store (store (store (store (\<lambda>_. 0) 4104 8 0) 4168 8 1) 4232 8 2) 4296 8 3\<rparr>) \<and>
   StatArray_dump_yaml 0 [] X
       (example_world\<lparr>heap :=
            store (store (store (store (\<lambda>_. 0) 4104 8 0) 4168 8 1) 4232 8 2) 4296 8 3\<rparr>) =
     Inr ([YAML_Key, YAML_str ''latency_hist'', YAML_Value, YAML_Flow, YAML_BeginSeq,
           YAML_num 0, YAML_num 0, YAML_num 0, YAML_num 0, YAML_EndSeq, YAML_Block],
          example_world\<lparr>heap :=
            store (store (store (store (\<lambda>_. 0) 4104 8 0) 4168 8 1) 4232 8 2) 4296 8 3\<rparr>)"
proof -
  have i: "indices (arrs example_world 0) = [0, 1, 2, 3]"
    by (simp add: example_world_def indices_def upt_conv_Cons)
  have w: "write_each 0 [0, 1, 2, 3] example_world =
     Inr (example_world\<lparr>heap :=
            store (store (store (store (\<lambda>_. 0) 4104 8 0) 4168 8 1) 4232 8 2) 4296 8 3\<rparr>)"
    by (simp add: example_world_def assign_index_def op_index_def word_sless_alt)
  have d: "StatArray_dump_yaml 0 [] X
       (example_world\<lparr>heap :=
            store (store (store (store (\<lambda>_. 0) 4104 8 0) 4168 8 1) 4232 8 2) 4296 8 3\<rparr>) =
     Inr ([YAML_Key, YAML_str ''latency_hist'', YAML_Value, YAML_Flow, YAML_BeginSeq,
           YAML_num 0, YAML_num 0, YAML_num 0, YAML_num 0, YAML_EndSeq, YAML_Block],
          example_world\<lparr>heap :=
            store (store (store (store (\<lambda>_. 0) 4104 8 0) 4168 8 1) 4232 8 2) 4296 8 3\<rparr>)"
    by (simp add: example_world_def StatArray_dump_yaml_def indices_def upt_conv_Cons
        arr_op_call_def base_def X_def elem_def Let_def load_numeral store_numeral)
  show ?thesis using i w d by simp
qed

subsection \<open>Dumps\<close>

lemma fold_append_concat:
  "fold (\<lambda>i acc. acc @ f i) xs acc0 = acc0 @ concat (map f xs)"
  by (induction xs arbitrary: acc0) simp_all

text \<open>
  The text dump of a scalar never aborts and does not read the descriptor's own target.
\<close>

lemma StatObj_dump_os_ignores_target:
  "StatObj_dump_os fmt this os stats (StatObj_set_default_stats this t w) =
     Inr (os @ name (objs w this) @ '':''
            @ fmt (load (heap w) (base stats + offset (objs w this)) (sizeof_T (objs w this)))
            @ [CHR 0x0A],
          StatObj_set_default_stats this t w)"
  by (simp add: StatObj_dump_os_def StatObj_set_default_stats_def op_call_def
      StatObjBase_set_default_stats_def set_default_var_ptr_def Let_def split: option.splits)

text \<open>
  C3 (the code at the failing input). A scalar \<open>hits\<close> constructed under a node with no
  default stats has a null \<open>default_var\<close>. Its text dump against the arena \<open>X\<close>
  succeeds, but its YAML dump against \<open>X\<close> aborts on \<open>assert(default_var)\<close>, before
  reading anything from \<open>X\<close>.
\<close>

theorem StatObj_dump_yaml_aborts_without_target:
  "StatObj_ctor 0 8 ''hits'' (Statable [] [] ''cache'' None) world0 =
     Inr (Statable [] [ObjRef 0] ''cache'' None,
          world0\<lparr>builder := \<lparr>rootNode = Statable [] [] [] None, stat_offset = 8\<rparr>,
                 objs := (\<lambda>_. blank_obj)(0 := \<lparr>default_stats = None, name = ''hits'',
                    sizeof_T = 8, offset = 0, default_var = 0\<rparr>)\<rparr>) \<and>
   StatObj_dump_yaml 0 [] X
     (world0\<lparr>builder := \<lparr>rootNode = Statable [] [] [] None, stat_offset = 8\<rparr>,
                 objs := (\<lambda>_. blank_obj)(0 := \<lparr>default_stats = None, name = ''hits'',
                    sizeof_T = 8, offset = 0, default_var = 0\<rparr>)\<rparr>) = Inl AssertionFailed \<and>
   StatObj_dump_os decimal 0 [] X
     (world0\<lparr>builder := \<lparr>rootNode = Statable [] [] [] None, stat_offset = 8\<rparr>,
                 objs := (\<lambda>_. blank_obj)(0 := \<lparr>default_stats = None, name = ''hits'',
                    sizeof_T = 8, offset = 0, default_var = 0\<rparr>)\<rparr>) =
     Inr (''hits:0'' @ [CHR 0x0A],
          world0\<lparr>builder := \<lparr>rootNode = Statable [] [] [] None, stat_offset = 8\<rparr>,
                 objs := (\<lambda>_. blank_obj)(0 := \<lparr>default_stats = None, name = ''hits'',
                    sizeof_T = 8, offset = 0, default_var = 0\<rparr>)\<rparr>)"
  by (simp add: ctor_defs StatObj_dump_yaml_def StatObj_dump_os_def op_call_def
      load_numeral decimal.simps)

text \<open>
  C4 (as the code has it). The text dump of a scalar appends the name, a colon, the
  value and a newline, with no space after the colon. The text dump of an array appends
  the name, a colon and a space, then each element in index order followed by one
  space, then a newline: the last element too is followed by a space.
\<close>

theorem text_dump_format:
  "StatObj_dump_os fmt this os stats w =
     Inr (os @ name (objs w this) @ '':''
            @ fmt (load (heap w) (base stats + offset (objs w this)) (sizeof_T (objs w this)))
            @ [CHR 0x0A], w) \<and>
   StatArray_dump_os fmt this' os stats w =
     Inr (os @ name (arrs w this') @ '': ''
            @ concat (map (\<lambda>i. fmt (load (heap w)
                                      (base stats + arr_offset (arrs w this')
                                         + of_nat i * of_nat (arr_sizeof_T (arrs w this')))
                                      (arr_sizeof_T (arrs w this'))) @ '' '')
                       [0 ..< nat (sint (arr_size (arrs w this')))])
            @ [CHR 0x0A], w)"
  by (simp add: StatObj_dump_os_def StatArray_dump_os_def op_call_def arr_op_call_def
      elem_def indices_def Let_def fold_append_concat)

text \<open>
  C4 as stated fails. With \<open>hits = 3\<close> and \<open>latency_hist = [0, 0, 7, 0]\<close> in the arena
  \<open>X\<close>, the dumps are \<open>hits:3\<close> and \<open>latency_hist: 0 0 7 0 \<close> (then the newline),
  not \<open>hits: 3\<close> and \<open>latency_hist: 0 0 7 0\<close>.
\<close>

theorem text_dump_not_as_claimed:
  "StatObj_dump_os decimal 0 [] X
       (example_world\<lparr>heap := store (store (\<lambda>_. 0) 4096 8 3) 4120 8 7\<rparr>) =
     Inr (''hits:3'' @ [CHR 0x0A],
          example_world\<lparr>heap := store (store (\<lambda>_. 0) 4096 8 3) 4120 8 7\<rparr>) \<and>
   ''hits:3'' @ [CHR 0x0A] \<noteq> ''hits: 3'' @ [CHR 0x0A] \<and>
   StatArray_dump_os decimal 0 [] X
       (example_world\<lparr>heap := store (store (\<lambda>_. 0) 4096 8 3) 4120 8 7\<rparr>) =
     Inr (''latency_hist: 0 0 7 0 '' @ [CHR 0x0A],
          example_world\<lparr>heap := store (store (\<lambda>_. 0) 4096 8 3) 4120 8 7\<rparr>) \<and>
   ''latency_hist: 0 0 7 0 '' @ [CHR 0x0A] \<noteq> ''latency_hist: 0 0 7 0'' @ [CHR 0x0A]"
  by (simp add: example_world_def StatObj_dump_os_def StatArray_dump_os_def op_call_def
      arr_op_call_def elem_def indices_def upt_conv_Cons base_def X_def Let_def
      load_numeral store_numeral decimal.simps)

subsection \<open>The binary operators\<close>

lemma load_bound: "load m a n < 256 ^ n"
proof (induction n arbitrary: a)
  case 0
  show ?case by simp
next
  case (Suc n)
  have b: "unat (m a) < 256"
    using unsigned_less [of "m a", where 'a = nat] by simp
  have "load m (a + 1) n < 256 ^ n" by (rule Suc.IH)
  then have "Suc (load m (a + 1) n) \<le> 256 ^ n" by simp
  then have "256 * Suc (load m (a + 1) n) \<le> 256 * 256 ^ n"
    by (rule mult_le_mono2)
  then show ?case using b by simp
qed

lemma load_mod: "load m a n mod 256 ^ n = load m a n"
  using load_bound [of m a n] by simp

lemma T_ops_mod:
  "T_add n a (b mod 256 ^ n) = T_add n a b"
  "T_sub n a (b mod 256 ^ n) = T_sub n a b"
  "T_mul n a (b mod 256 ^ n) = T_mul n a b"
  by (simp_all add: T_add_def T_sub_def T_mul_def mod_simps)

text \<open>
  C10. Each of the operators \<open>+ - * /\<close>, with a literal or with another \<open>StatObj<T>\<close>,
  when it returns, returns the value computed in \<open>T\<close> from the two stored values and
  leaves the whole state as it was: the memory of every arena, and every descriptor
  with its target pointers. With both targets set (and a non-zero divisor for \<open>/\<close>) it
  does return.
\<close>

theorem binary_operators_pure:
  "(binary_operator f this r w = Inr (v, w') \<longrightarrow>
      w' = w \<and>
      v = T_binop f (sizeof_T (objs w this))
            (load (heap w) (default_var (objs w this)) (sizeof_T (objs w this)))
            (operand_value r (sizeof_T (objs w this)) w)) \<and>
   (default_var (objs w this) \<noteq> 0 \<and> operand_target_set r w \<and>
    (f = OpDiv \<longrightarrow> operand_value r (sizeof_T (objs w this)) w \<noteq> 0) \<longrightarrow>
      (\<exists>v. binary_operator f this r w = Inr (v, w)))"
  by (cases f; cases r)
     (auto simp: op_plus_def op_plus_obj_def op_minus_def op_minus_obj_def op_times_def
        op_times_obj_def op_divide_def op_divide_obj_def Let_def T_ops_mod
        split: if_splits)

theorem binary_operators_pure_witness:
  "default_var (objs (example_world\<lparr>heap := store (store (\<lambda>_. 0) 4096 8 6) 4136 8 3\<rparr>) 0) \<noteq> 0 \<and>
   operand_target_set (Obj 1) (example_world\<lparr>heap := store (store (\<lambda>_. 0) 4096 8 6) 4136 8 3\<rparr>) \<and>
   operand_value (Obj 1) 8 (example_world\<lparr>heap := store (store (\<lambda>_. 0) 4096 8 6) 4136 8 3\<rparr>) = 3 \<and>
   binary_operator OpDiv 0 (Obj 1) (example_world\<lparr>heap := store (store (\<lambda>_. 0) 4096 8 6) 4136 8 3\<rparr>) =
     Inr (2, example_world\<lparr>heap := store (store (\<lambda>_. 0) 4096 8 6) 4136 8 3\<rparr>)"
proof -
  let ?w = "example_world\<lparr>heap := store (store (\<lambda>_. 0) 4096 8 6) 4136 8 3\<rparr>"
  have s: "sizeof_T (objs ?w 0) = 8" and a: "default_var (objs ?w 0) = 4096"
    and b: "default_var (objs ?w 1) = 4136"
    by (simp_all add: example_world_def)
  have la: "load (heap ?w) 4096 8 = 6" and lb: "load (heap ?w) 4136 8 = 3"
    by (simp_all add: load_numeral store_numeral)
  have pre: "default_var (objs ?w 0) \<noteq> 0 \<and> operand_target_set (Obj 1) ?w \<and>
      (OpDiv = OpDiv \<longrightarrow> operand_value (Obj 1) (sizeof_T (objs ?w 0)) ?w \<noteq> 0)"
    using s a b la lb by simp
  from binary_operators_pure [of OpDiv 0 "Obj 1" ?w _ _] pre
  obtain v where r: "binary_operator OpDiv 0 (Obj 1) ?w = Inr (v, ?w)" by blast
  from binary_operators_pure [of OpDiv 0 "Obj 1" ?w v ?w] r
  have "v = T_binop OpDiv (sizeof_T (objs ?w 0))
            (load (heap ?w) (default_var (objs ?w 0)) (sizeof_T (objs ?w 0)))
            (operand_value (Obj 1) (sizeof_T (objs ?w 0)) ?w)" by blast
  then have "v = 2" using s a b la lb by simp
  then show ?thesis using r s a b la lb by simp
qed

subsection \<open>Loads and stores\<close>

lemma cells_Suc: "cells a (Suc n) = insert a (cells (a + 1) n)"
proof -
  have "{..<Suc n} = insert 0 (Suc ` {..<n})"
    by (auto simp: image_iff less_Suc_eq_0_disj)
  then have "cells a (Suc n) = insert a ((\<lambda>k. a + of_nat (Suc k)) ` {..<n})"
    by (simp add: cells_def image_image)
  also have "(\<lambda>k. a + of_nat (Suc k)) ` {..<n} = cells (a + 1) n"
    by (simp add: cells_def ac_simps)
  finally show ?thesis .
qed


lemma store_outside: "x \<notin> cells a n \<Longrightarrow> store m a n v x = m x"
  by (induction n arbitrary: m a v) (simp_all add: cells_Suc)

lemma load_cong_cells: "(\<And>x. x \<in> cells a n \<Longrightarrow> m x = m' x) \<Longrightarrow> load m a n = load m' a n"
  by (induction n arbitrary: a) (simp_all add: cells_Suc)


lemma unat_plus_of_nat:
  "unat (a :: W64) + k < 2 ^ 64 \<Longrightarrow> unat (a + of_nat k) = unat a + k"
  by (simp add: unat_word_ariths unat_of_nat take_bit_eq_mod)



lemma cells_unat:
  assumes "unat a + n \<le> 2 ^ 64" and "x \<in> cells a n"
  shows "unat a \<le> unat x \<and> unat x < unat a + n"
proof -
  from assms(2) obtain k where k: "k < n" and x: "x = a + of_nat k"
    by (auto simp: cells_def)
  have "unat a + k < 2 ^ 64" using k assms(1) by simp
  then have "unat x = unat a + k" unfolding x by (rule unat_plus_of_nat)
  then show ?thesis using k by simp
qed


subsection \<open>Address resolution of a scalar descriptor\<close>

lemma exec_objs:
  assumes "exec i c w = Inr w'"
  shows "objs w' = (case c of
            SetDefaultStats stats \<Rightarrow> (objs w)(i := set_default_var_ptr
                 (StatObjBase_set_default_stats stats (objs w i)))
          | _ \<Rightarrow> objs w)"
proof (cases c)
  case (Binary f r)
  then show ?thesis using assms
    by (cases f; cases r)
       (auto simp: op_plus_def op_plus_obj_def op_minus_def op_minus_obj_def op_times_def
          op_times_obj_def op_divide_def op_divide_obj_def Let_def split: if_splits)
qed (use assms in \<open>auto simp: StatObj_set_default_stats_def op_post_inc_def op_pre_inc_def
        op_post_dec_def op_pre_dec_def StatObj_dump_os_def StatObj_dump_yaml_def
        StatObj_add_stats_def Let_def split: if_splits\<close>)

lemma set_default_var_ptr_fields:
  "offset (set_default_var_ptr (StatObjBase_set_default_stats stats x)) = offset x"
  "sizeof_T (set_default_var_ptr (StatObjBase_set_default_stats stats x)) = sizeof_T x"
  "default_stats (set_default_var_ptr (StatObjBase_set_default_stats stats x)) = stats"
  "default_var (set_default_var_ptr (StatObjBase_set_default_stats stats x)) =
     (case stats of None \<Rightarrow> 0 | Some s \<Rightarrow> base s + offset x)"
  by (simp_all add: set_default_var_ptr_def StatObjBase_set_default_stats_def split: option.splits)

lemma exec_invariant:
  assumes "exec i c w = Inr w'"
  shows "offset (objs w' j) = offset (objs w j)"
    and "sizeof_T (objs w' j) = sizeof_T (objs w j)"
    and "default_var (objs w j) = resolved (objs w j) \<Longrightarrow>
         default_var (objs w' j) = resolved (objs w' j)"
  using exec_objs [OF assms]
  by (cases c; simp add: set_default_var_ptr_fields resolved_def split: option.splits)+

lemma run_invariant:
  assumes "run cs w = Inr w'"
  shows "offset (objs w' j) = offset (objs w j) \<and>
         sizeof_T (objs w' j) = sizeof_T (objs w j) \<and>
         (default_var (objs w j) = resolved (objs w j) \<longrightarrow>
          default_var (objs w' j) = resolved (objs w' j))"
  using assms
proof (induction cs arbitrary: w)
  case Nil
  then show ?case by simp
next
  case (Cons a cs)
  obtain i c where a: "a = (i, c)" by (cases a)
  from Cons.prems a obtain w1 where e: "exec i c w = Inr w1" and r: "run cs w1 = Inr w'"
    by (auto split: sum.splits)
  from Cons.IH [OF r] exec_invariant [OF e, of j] show ?case by simp
qed

lemma ctor_resolved:
  assumes "StatObj_ctor this n nm parent w = Inr (p, w')"
  shows "default_var (objs w' this) = resolved (objs w' this)"
  using assms
  by (auto simp: StatObj_ctor_def Let_def set_default_var_ptr_def resolved_def
      split: sum.splits option.splits)

text \<open>
  What holds of a scalar descriptor built by its constructor, after any sequence of
  calls on any scalar descriptors (retargeting included) that runs to its end: the
  offset is the one the constructor reserved; \<open>default_var\<close> is the base of the
  current default stats plus that offset (null without default stats); \<open>operator()\<close>
  resolves to the base of the supplied stats plus that offset; \<open>set_default_stats\<close>
  retargets to the base of the new stats plus that offset; and each of the
  default-target operators reads and writes the \<open>T\<close> at the base of the default stats
  plus that offset.
\<close>

theorem descriptor_address_resolution:
  assumes "StatObj_ctor this n nm parent w0 = Inr (p, w1)" and "run cs w1 = Inr w2"
  shows "offset (objs w2 this) = offset (objs w1 this) \<and>
         default_var (objs w2 this) =
           (case default_stats (objs w2 this) of
              None \<Rightarrow> 0
            | Some s \<Rightarrow> base s + offset (objs w1 this)) \<and>
         op_call this stats w2 = base stats + offset (objs w1 this) \<and>
         default_var (objs (StatObj_set_default_stats this (Some s') w2) this) =
           base s' + offset (objs w1 this) \<and>
         op_post_inc this w2 =
           (case default_stats (objs w2 this) of
              None \<Rightarrow> Inl AssertionFailed
            | Some s \<Rightarrow>
                if base s + offset (objs w1 this) = 0 then Inl AssertionFailed
                else Inr (load (heap w2) (base s + offset (objs w1 this)) n,
                          w2\<lparr>heap := store (heap w2) (base s + offset (objs w1 this)) n
                             (T_add n (load (heap w2) (base s + offset (objs w1 this)) n) 1)\<rparr>)) \<and>
         (default_stats (objs w2 this) = Some t \<and> base t + offset (objs w1 this) \<noteq> 0 \<longrightarrow>
            op_pre_inc this w2 =
              Inr (load (store (heap w2) (base t + offset (objs w1 this)) n
                           (T_add n (load (heap w2) (base t + offset (objs w1 this)) n) 1))
                        (base t + offset (objs w1 this)) n,
                   w2\<lparr>heap := store (heap w2) (base t + offset (objs w1 this)) n
                      (T_add n (load (heap w2) (base t + offset (objs w1 this)) n) 1)\<rparr>) \<and>
            op_post_dec this w2 =
              Inr (load (heap w2) (base t + offset (objs w1 this)) n,
                   w2\<lparr>heap := store (heap w2) (base t + offset (objs w1 this)) n
                      (T_sub n (load (heap w2) (base t + offset (objs w1 this)) n) 1)\<rparr>) \<and>
            op_pre_dec this w2 =
              Inr (load (store (heap w2) (base t + offset (objs w1 this)) n
                           (T_sub n (load (heap w2) (base t + offset (objs w1 this)) n) 1))
                        (base t + offset (objs w1 this)) n,
                   w2\<lparr>heap := store (heap w2) (base t + offset (objs w1 this)) n
                      (T_sub n (load (heap w2) (base t + offset (objs w1 this)) n) 1)\<rparr>) \<and>
            op_plus this b w2 =
              Inr (T_add n (load (heap w2) (base t + offset (objs w1 this)) n) b, w2) \<and>
            op_minus this b w2 =
              Inr (T_sub n (load (heap w2) (base t + offset (objs w1 this)) n) b, w2) \<and>
            op_times this b w2 =
              Inr (T_mul n (load (heap w2) (base t + offset (objs w1 this)) n) b, w2) \<and>
            op_divide this b w2 =
              (if b mod 256 ^ n = 0 then Inl DivisionByZero
               else Inr (load (heap w2) (base t + offset (objs w1 this)) n div (b mod 256 ^ n), w2)))"
    (is "?c1 \<and> ?c2 \<and> ?c3 \<and> ?c4 \<and> ?c5 \<and> ?c6")
proof -
  note inv = run_invariant [OF assms(2), of this]
  have off: "offset (objs w2 this) = offset (objs w1 this)" using inv by simp
  have sz1: "sizeof_T (objs w1 this) = n"
    using assms(1)
    by (auto simp: StatObj_ctor_def Let_def set_default_var_ptr_def split: sum.splits option.splits)
  have sz: "sizeof_T (objs w2 this) = n" using inv sz1 by simp
  have "default_var (objs w2 this) = resolved (objs w2 this)"
    using inv ctor_resolved [OF assms(1)] by simp
  then have dv: ?c2
    by (simp add: resolved_def off split: option.splits)
  have call: ?c3
    by (simp add: op_call_def off)
  have sds: ?c4
    by (simp add: StatObj_set_default_stats_def set_default_var_ptr_fields off)
  have inc: ?c5
    using dv sz by (simp add: op_post_inc_def Let_def split: option.splits)
  have others: ?c6
    using dv sz
    by (simp add: op_pre_inc_def op_post_dec_def op_pre_dec_def op_plus_def op_minus_def
        op_times_def op_divide_def Let_def)
  from off dv call sds inc others show ?thesis by (intro conjI)
qed

theorem descriptor_address_resolution_witness:
  "StatObj_ctor 0 8 ''hits'' (Statable [] [] ''cache'' (Some X)) world0 =
     Inr (Statable [] [ObjRef 0] ''cache'' (Some X),
          world0\<lparr>builder := \<lparr>rootNode = Statable [] [] [] None, stat_offset = 8\<rparr>,
                 objs := (\<lambda>_. blank_obj)(0 := \<lparr>default_stats = Some X, name = ''hits'',
                    sizeof_T = 8, offset = 0, default_var = 4096\<rparr>)\<rparr>) \<and>
   (\<exists>w2. run [(0, SetDefaultStats (Some Y)), (0, PostInc), (0, SetDefaultStats None)]
           (world0\<lparr>builder := \<lparr>rootNode = Statable [] [] [] None, stat_offset = 8\<rparr>,
                 objs := (\<lambda>_. blank_obj)(0 := \<lparr>default_stats = Some X, name = ''hits'',
                    sizeof_T = 8, offset = 0, default_var = 4096\<rparr>)\<rparr>) = Inr w2 \<and>
         offset (objs w2 0) = 0 \<and> default_var (objs w2 0) = 0 \<and>
         op_call 0 Y w2 = 16384 \<and>
         default_var (objs (StatObj_set_default_stats 0 (Some X) w2) 0) = 4096 \<and>
         op_post_inc 0 w2 = Inl AssertionFailed)"
proof -
  let ?p = "Statable [] [ObjRef 0] ''cache'' (Some X)"
  let ?w1 = "world0\<lparr>builder := \<lparr>rootNode = Statable [] [] [] None, stat_offset = 8\<rparr>,
                 objs := (\<lambda>_. blank_obj)(0 := \<lparr>default_stats = Some X, name = ''hits'',
                    sizeof_T = 8, offset = 0, default_var = 4096\<rparr>)\<rparr>"
  let ?cs = "[(0, SetDefaultStats (Some Y)), (0, PostInc), (0, SetDefaultStats None)]"
  have c: "StatObj_ctor 0 8 ''hits'' (Statable [] [] ''cache'' (Some X)) world0 = Inr (?p, ?w1)"
    by (simp add: ctor_defs)
  have "\<exists>w2. run ?cs ?w1 = Inr w2 \<and> default_stats (objs w2 0) = None"
    by (simp add: StatObj_set_default_stats_def StatObjBase_set_default_stats_def
        set_default_var_ptr_def op_post_inc_def base_def Y_def Let_def)
  then obtain w2 where r: "run ?cs ?w1 = Inr w2" and ds: "default_stats (objs w2 0) = None"
    by blast
  have o1: "offset (objs ?w1 0) = 0" by simp
  from descriptor_address_resolution [OF c r, of Y X] ds o1
  have "offset (objs w2 0) = 0 \<and> default_var (objs w2 0) = 0 \<and>
         op_call 0 Y w2 = 16384 \<and>
         default_var (objs (StatObj_set_default_stats 0 (Some X) w2) 0) = 4096 \<and>
         op_post_inc 0 w2 = Inl AssertionFailed"
    by (simp add: base_def X_def Y_def)
  then show ?thesis using c r by blast
qed

subsection \<open>Arenas\<close>

lemma arena_cells:
  assumes "arena s" and "unat off + n \<le> unat STATS_SIZE" and "x \<in> cells (base s + off) n"
  shows "unat (base s) \<le> unat x \<and> unat x < unat (base s) + unat STATS_SIZE"
proof -
  have "0 < n" using assms(3) by (auto simp: cells_def)
  then have lt: "unat (base s) + unat off < 2 ^ 64"
    using assms(1,2) by (simp add: arena_def STATS_SIZE_def)
  have "unat (base s + of_nat (unat off)) = unat (base s) + unat off"
    using lt by (rule unat_plus_of_nat)
  then have u: "unat (base s + off) = unat (base s) + unat off" by simp
  have "unat (base s + off) + n \<le> 2 ^ 64"
    using u assms(1,2) by (simp add: arena_def)
  from cells_unat [OF this assms(3)] u assms(2) show ?thesis by simp
qed

lemma separate_cells_disjoint:
  assumes "arena s" and "arena t" and "separate s t"
    and "unat off + n \<le> unat STATS_SIZE" and "unat off' + n' \<le> unat STATS_SIZE"
  shows "cells (base s + off) n \<inter> cells (base t + off') n' = {}"
proof (rule ccontr)
  assume "cells (base s + off) n \<inter> cells (base t + off') n' \<noteq> {}"
  then obtain x where xs: "x \<in> cells (base s + off) n" and xt: "x \<in> cells (base t + off') n'"
    by blast
  from arena_cells [OF assms(1) assms(4) xs] arena_cells [OF assms(2) assms(5) xt] assms(3)
  show False by (auto simp: separate_def)
qed

subsection \<open>Switching the target\<close>

lemma mutating_exec_frame:
  assumes "mutating c" and "exec this c w = Inr w'"
  shows "objs w' = objs w" and "x \<notin> cells (default_var (objs w this)) (sizeof_T (objs w this)) \<Longrightarrow> heap w' x = heap w x"
  using assms
  by (cases c; auto simp: op_post_inc_def op_pre_inc_def op_post_dec_def op_pre_dec_def Let_def
        store_outside split: if_splits)+

lemma mutating_run_frame:
  assumes "\<forall>c \<in> set cs. mutating c" and "run (map (Pair this) cs) w = Inr w'"
  shows "objs w' = objs w \<and>
         (\<forall>x. x \<notin> cells (default_var (objs w this)) (sizeof_T (objs w this)) \<longrightarrow> heap w' x = heap w x)"
  using assms
proof (induction cs arbitrary: w)
  case Nil
  then show ?case by simp
next
  case (Cons c cs)
  from Cons.prems(2) obtain w1 where e: "exec this c w = Inr w1"
    and r: "run (map (Pair this) cs) w1 = Inr w'"
    by (auto split: sum.splits)
  have m: "mutating c" and ms: "\<forall>c \<in> set cs. mutating c" using Cons.prems(1) by simp_all
  note f = mutating_exec_frame [OF m e]
  from Cons.IH [OF ms r] f show ?case by simp
qed

text \<open>
  C8. A scalar descriptor lies inside its arena; \<open>X\<close> and \<open>Y\<close> are distinct arenas.
  After \<open>set_default_stats(&Y)\<close>, any sequence of increments and decrements that runs
  to its end leaves the value stored in \<open>X\<close> at the descriptor's offset as it was.
\<close>

theorem target_switch_isolates:
  assumes "arena X'" and "arena Y'" and "separate X' Y'"
    and "unat (offset (objs w this)) + sizeof_T (objs w this) \<le> unat STATS_SIZE"
    and "\<forall>c \<in> set cs. mutating c"
    and "run (map (Pair this) cs) (StatObj_set_default_stats this (Some Y') w) = Inr w'"
  shows "load (heap w') (op_call this X' w') (sizeof_T (objs w' this)) =
         load (heap w) (op_call this X' w) (sizeof_T (objs w this))"
proof -
  let ?w0 = "StatObj_set_default_stats this (Some Y') w"
  let ?off = "offset (objs w this)" and ?n = "sizeof_T (objs w this)"
  have o0: "offset (objs ?w0 this) = ?off" "sizeof_T (objs ?w0 this) = ?n"
    "default_var (objs ?w0 this) = base Y' + ?off" "heap ?w0 = heap w"
    by (simp_all add: StatObj_set_default_stats_def set_default_var_ptr_fields)
  note f = mutating_run_frame [OF assms(5,6)]
  have objs: "objs w' = objs ?w0" using f by simp
  have frame: "heap w' x = heap w x" if "x \<notin> cells (base Y' + ?off) ?n" for x
    using f that o0 by simp
  have d: "cells (base X' + ?off) ?n \<inter> cells (base Y' + ?off) ?n = {}"
    by (rule separate_cells_disjoint [OF assms(1,2,3,4,4)])
  have "load (heap w') (base X' + ?off) ?n = load (heap w) (base X' + ?off) ?n"
    by (rule load_cong_cells) (use d frame in blast)
  then show ?thesis by (simp add: op_call_def objs o0)
qed

theorem target_switch_isolates_witness:
  "arena X \<and> arena Y \<and> separate X Y \<and>
   unat (offset (objs (example_world\<lparr>heap := store (\<lambda>_. 0) 4096 8 5\<rparr>) 0))
     + sizeof_T (objs (example_world\<lparr>heap := store (\<lambda>_. 0) 4096 8 5\<rparr>) 0) \<le> unat STATS_SIZE \<and>
   list_all mutating [PostInc, PreInc, PostDec] \<and>
   (\<exists>w'. run (map (Pair 0) [PostInc, PreInc, PostDec])
            (StatObj_set_default_stats 0 (Some Y)
               (example_world\<lparr>heap := store (\<lambda>_. 0) 4096 8 5\<rparr>)) = Inr w' \<and>
         load (heap w') (op_call 0 Y w') 8 = 1 \<and>
         load (heap w') (op_call 0 X w') (sizeof_T (objs w' 0)) = 5)"
proof -
  let ?w = "example_world\<lparr>heap := store (\<lambda>_. 0) 4096 8 5\<rparr>"
  let ?cs = "[PostInc, PreInc, PostDec]"
  have a: "arena X" "arena Y" "separate X Y"
    by (simp_all add: arena_def separate_def X_def Y_def base_def STATS_SIZE_def)
  have i: "unat (offset (objs ?w 0)) + sizeof_T (objs ?w 0) \<le> unat STATS_SIZE"
    by (simp add: example_world_def STATS_SIZE_def)
  have m: "\<forall>c \<in> set ?cs. mutating c" by simp
  have "\<exists>w'. run (map (Pair 0) ?cs) (StatObj_set_default_stats 0 (Some Y) ?w) = Inr w' \<and>
           load (heap w') (op_call 0 Y w') 8 = 1"
    by (simp add: example_world_def StatObj_set_default_stats_def StatObjBase_set_default_stats_def
        set_default_var_ptr_def op_post_inc_def op_pre_inc_def op_post_dec_def op_call_def
        base_def Y_def Let_def T_add_def T_sub_def load_numeral store_numeral)
  then obtain w' where
    r: "run (map (Pair 0) ?cs) (StatObj_set_default_stats 0 (Some Y) ?w) = Inr w'"
    and y: "load (heap w') (op_call 0 Y w') 8 = 1"
    by blast
  have x0: "load (heap ?w) (op_call 0 X ?w) (sizeof_T (objs ?w 0)) = 5"
    by (simp add: example_world_def op_call_def base_def X_def load_numeral store_numeral)
  from target_switch_isolates [OF a i m r] x0
  have "load (heap w') (op_call 0 X w') (sizeof_T (objs w' 0)) = 5" by simp
  then show ?thesis using a i r y by auto
qed

subsection \<open>Offsets of declared counters\<close>

lemma narrow_of_nat: "(ucast (of_nat k :: W64) :: c_int) = of_nat k"
  by (simp only: unsigned_of_nat word_of_nat_eq_iff) (simp add: take_bit_take_bit)

lemma sint_narrow_of_nat:
  assumes "k < 2 ^ 31"
  shows "sint (ucast (of_nat k :: W64) :: c_int) = int k"
proof -
  have "sint (of_nat k :: c_int) = signed_take_bit 31 (int k)"
    by (simp add: signed_of_nat)
  also have "\<dots> = int k"
    using assms by (intro signed_take_bit_int_eq_self) simp_all
  finally show ?thesis by (simp only: narrow_of_nat)
qed

lemma array_bytes_of_nat:
  "0 \<le> sint (sz :: c_int) \<Longrightarrow> (of_nat n * scast sz :: W64) = of_nat (n * nat (sint sz))"
  by simp

lemma get_offset_nat:
  assumes "stat_offset b < STATS_SIZE" and "k < 2 ^ 31"
    and "get_offset (ucast (of_nat k :: W64)) b = Inr (off, b')"
  shows "off = stat_offset b \<and> unat (stat_offset b') = unat (stat_offset b) + k \<and>
         stat_offset b' < STATS_SIZE \<and> rootNode b' = rootNode b"
proof -
  let ?sz = "ucast (of_nat k :: W64) :: c_int"
  have s: "sint ?sz = int k" using assms(2) by (rule sint_narrow_of_nat)
  have a: "uint (stat_offset b) < 10240"
    using assms(1) by (simp add: STATS_SIZE_def word_less_def)
  have "0 \<le> uint (stat_offset b) + sint ?sz" using s by simp
  with advance_cases [OF a, of ?sz]
  have u: "uint (stat_offset b + scast ?sz) = uint (stat_offset b) + int k"
    using s by simp
  from assms(3) have ok: "stat_offset b + scast ?sz < STATS_SIZE"
    and off: "off = stat_offset b" and b': "b' = b\<lparr>stat_offset := stat_offset b + scast ?sz\<rparr>"
    by (auto simp: get_offset_def Let_def split: if_splits)
  have "int (unat (stat_offset b + scast ?sz)) = int (unat (stat_offset b)) + int k"
    using u by simp
  then have "unat (stat_offset b + scast ?sz) = unat (stat_offset b) + k"
    by linarith
  then show ?thesis using ok off b' by simp
qed

lemma construct_step:
  assumes "stat_offset (builder w) < STATS_SIZE" and "fits_int d"
    and "construct k d parent w = Inr (p', w')"
  shows "leaf_offset w' (decl_ref k d) = unat (stat_offset (builder w)) \<and>
         leaf_size w' (decl_ref k d) = decl_size d \<and>
         unat (stat_offset (builder w')) = unat (stat_offset (builder w)) + decl_size d \<and>
         stat_offset (builder w') < STATS_SIZE \<and>
         (\<forall>l. l \<noteq> decl_ref k d \<longrightarrow>
            leaf_offset w' l = leaf_offset w l \<and> leaf_size w' l = leaf_size w l)"
proof (cases d)
  case (DeclObj n nm)
  from assms(3) DeclObj obtain off b' where
    g: "get_offset (ucast (of_nat n :: W64)) (builder w) = Inr (off, b')"
    and w': "w' = w\<lparr>builder := b', objs := (objs w)(k := set_default_var_ptr
                \<lparr>default_stats = get_default_stats parent, name = nm, sizeof_T = n,
                 offset = off, default_var = 0\<rparr>)\<rparr>"
    by (auto simp: StatObj_ctor_def Let_def split: sum.splits)
  have n: "n < 2 ^ 31" using assms(2) DeclObj by simp
  note r = get_offset_nat [OF assms(1) n g]
  have others: "leaf_offset w' l = leaf_offset w l \<and> leaf_size w' l = leaf_size w l"
    if "l \<noteq> ObjRef k" for l
    using that by (cases l) (simp_all add: w')
  show ?thesis using r others
    by (simp add: DeclObj w' set_default_var_ptr_def split: option.splits)
next
  case (DeclArr n sz nm)
  have sz: "0 \<le> sint sz" and n: "n * nat (sint sz) < 2 ^ 31"
    using assms(2) DeclArr by simp_all
  have e: "(of_nat n * scast sz :: W64) = of_nat (n * nat (sint sz))"
    using sz by (rule array_bytes_of_nat)
  from assms(3) DeclArr obtain off b' where
    g: "get_offset (ucast (of_nat n * scast sz :: W64)) (builder w) = Inr (off, b')"
    and w': "w' = w\<lparr>builder := b', arrs := (arrs w)(k := arr_set_default_var_ptr
                \<lparr>default_stats = get_default_stats parent, name = nm, arr_sizeof_T = n,
                 arr_size = sz, arr_offset = off, arr_default_var = 0\<rparr>)\<rparr>"
    by (auto simp: StatArray_ctor_def Let_def split: sum.splits)
  from g have g': "get_offset (ucast (of_nat (n * nat (sint sz)) :: W64)) (builder w) = Inr (off, b')"
    by (simp only: e)
  note r = get_offset_nat [OF assms(1) n g']
  have others: "leaf_offset w' l = leaf_offset w l \<and> leaf_size w' l = leaf_size w l"
    if "l \<noteq> ArrRef k" for l
    using that by (cases l) (simp_all add: w')
  show ?thesis using r others
    by (simp add: DeclArr w' arr_set_default_var_ptr_def split: option.splits)
qed

lemma decl_ref_index: "i \<noteq> j \<Longrightarrow> decl_ref i d \<noteq> decl_ref j d'"
  by (cases d; cases d') simp_all

lemma construct_all_layout:
  assumes "stat_offset (builder w) < STATS_SIZE" and "list_all fits_int ds"
    and "construct_all k ds parent w = Inr (p', w')"
  shows "(\<forall>i < length ds.
            leaf_offset w' (decl_ref (k + i) (ds ! i)) =
              unat (stat_offset (builder w)) + sum_list (map decl_size (take i ds)) \<and>
            leaf_size w' (decl_ref (k + i) (ds ! i)) = decl_size (ds ! i)) \<and>
         unat (stat_offset (builder w')) =
           unat (stat_offset (builder w)) + sum_list (map decl_size ds) \<and>
         stat_offset (builder w') < STATS_SIZE \<and>
         (\<forall>l. (\<forall>i < length ds. l \<noteq> decl_ref (k + i) (ds ! i)) \<longrightarrow>
            leaf_offset w' l = leaf_offset w l \<and> leaf_size w' l = leaf_size w l)"
  using assms
proof (induction ds arbitrary: k parent w)
  case Nil
  then show ?case by simp
next
  case (Cons d ds)
  from Cons.prems(3) obtain p1 w1 where
    c: "construct k d parent w = Inr (p1, w1)"
    and r: "construct_all (Suc k) ds p1 w1 = Inr (p', w')"
    by (auto split: sum.splits)
  have f: "fits_int d" and fs: "list_all fits_int ds" using Cons.prems(2) by simp_all
  note s = construct_step [OF Cons.prems(1) f c]
  have lt1: "stat_offset (builder w1) < STATS_SIZE" using s by blast
  note ih = Cons.IH [OF lt1 fs r]
  let ?c0 = "unat (stat_offset (builder w))"
  have c1: "unat (stat_offset (builder w1)) = ?c0 + decl_size d" using s by blast
  have first: "leaf_offset w' (decl_ref k d) = ?c0 \<and> leaf_size w' (decl_ref k d) = decl_size d"
  proof -
    have "\<forall>i < length ds. decl_ref k d \<noteq> decl_ref (Suc k + i) (ds ! i)"
      by (simp add: decl_ref_index)
    with ih have "leaf_offset w' (decl_ref k d) = leaf_offset w1 (decl_ref k d) \<and>
        leaf_size w' (decl_ref k d) = leaf_size w1 (decl_ref k d)" by blast
    then show ?thesis using s by simp
  qed
  have each: "leaf_offset w' (decl_ref (k + i) ((d # ds) ! i)) =
        ?c0 + sum_list (map decl_size (take i (d # ds))) \<and>
      leaf_size w' (decl_ref (k + i) ((d # ds) ! i)) = decl_size ((d # ds) ! i)"
    if "i < length (d # ds)" for i
  proof (cases i)
    case 0
    then show ?thesis using first by simp
  next
    case (Suc j)
    then have "j < length ds" using that by simp
    with ih have "leaf_offset w' (decl_ref (Suc k + j) (ds ! j)) =
        unat (stat_offset (builder w1)) + sum_list (map decl_size (take j ds)) \<and>
      leaf_size w' (decl_ref (Suc k + j) (ds ! j)) = decl_size (ds ! j)" by blast
    then show ?thesis using Suc c1 by simp
  qed
  have cur: "unat (stat_offset (builder w')) = ?c0 + sum_list (map decl_size (d # ds))"
    using ih c1 by simp
  have lt: "stat_offset (builder w') < STATS_SIZE" using ih by blast
  have rest: "leaf_offset w' l = leaf_offset w l \<and> leaf_size w' l = leaf_size w l"
    if "\<forall>i < length (d # ds). l \<noteq> decl_ref (k + i) ((d # ds) ! i)" for l
  proof -
    from that have l0: "l \<noteq> decl_ref k d" by force
    have "\<forall>i < length ds. l \<noteq> decl_ref (Suc k + i) (ds ! i)"
    proof (intro allI impI)
      fix i assume "i < length ds"
      then have "Suc i < length (d # ds)" by simp
      with that have "l \<noteq> decl_ref (k + Suc i) ((d # ds) ! Suc i)" by blast
      then show "l \<noteq> decl_ref (Suc k + i) (ds ! i)" by simp
    qed
    with ih have "leaf_offset w' l = leaf_offset w1 l \<and> leaf_size w' l = leaf_size w1 l"
      by blast
    then show ?thesis using s l0 by simp
  qed
  show ?case using each cur lt rest by blast
qed

lemma sum_list_take_mono:
  "m \<le> n \<Longrightarrow> sum_list (map f (take m xs)) \<le> (sum_list (map f (take n xs)) :: nat)"
proof -
  assume "m \<le> n"
  then have "take n xs = take m xs @ take (n - m) (drop m xs)"
    using take_add [of m "n - m" xs] by simp
  then show ?thesis by simp
qed

lemma sum_list_take_Suc:
  "i < length xs \<Longrightarrow>
   sum_list (map f (take (Suc i) xs)) = sum_list (map f (take i xs)) + (f (xs ! i) :: nat)"
  by (simp add: take_Suc_conv_app_nth)

text \<open>
  What holds of the layout: counters are declared in sequence against one builder
  whose cursor is below \<open>STATS_SIZE\<close>, every one of them with a byte size
  (\<open>sizeof(T)\<close>, or \<open>sizeof(T) * size\<close>) that is a non-negative \<open>int\<close>, and every
  constructor returns. Then the byte ranges of any two of them do not overlap, each
  range ends at or before the final cursor, and the cursor never decreases: it is no
  lower after any prefix of the declarations than before, and no higher than at the end.
\<close>

theorem declared_ranges_disjoint:
  assumes "stat_offset (builder w) < STATS_SIZE" and "list_all fits_int ds"
    and "construct_all k ds parent w = Inr (p', w')"
  shows "(\<forall>i j. i < length ds \<and> j < length ds \<and> i \<noteq> j \<longrightarrow>
            apart w' (decl_ref (k + i) (ds ! i)) (decl_ref (k + j) (ds ! j))) \<and>
         (\<forall>i < length ds.
            leaf_size w' (decl_ref (k + i) (ds ! i)) = decl_size (ds ! i) \<and>
            unat (stat_offset (builder w)) \<le> leaf_offset w' (decl_ref (k + i) (ds ! i)) \<and>
            leaf_offset w' (decl_ref (k + i) (ds ! i)) + leaf_size w' (decl_ref (k + i) (ds ! i))
              \<le> unat (stat_offset (builder w'))) \<and>
         (\<forall>m pm wm. construct_all k (take m ds) parent w = Inr (pm, wm) \<longrightarrow>
            stat_offset (builder w) \<le> stat_offset (builder wm) \<and>
            stat_offset (builder wm) \<le> stat_offset (builder w')) \<and>
         stat_offset (builder w') < STATS_SIZE"
proof -
  let ?c0 = "unat (stat_offset (builder w))"
  let ?pre = "\<lambda>i. sum_list (map decl_size (take i ds))"
  let ?o = "\<lambda>i. leaf_offset w' (decl_ref (k + i) (ds ! i))"
  let ?s = "\<lambda>i. leaf_size w' (decl_ref (k + i) (ds ! i))"
  note L = construct_all_layout [OF assms]
  have off: "?o i = ?c0 + ?pre i" and sz: "?s i = decl_size (ds ! i)" if "i < length ds" for i
    using L that by blast+
  have cur: "unat (stat_offset (builder w')) = ?c0 + sum_list (map decl_size ds)"
    using L by blast
  have ordered: "?o i + ?s i \<le> ?o j" if "i < j" "j < length ds" for i j
  proof -
    have i: "i < length ds" using that by simp
    have "?pre (Suc i) \<le> ?pre j" using that(1) by (intro sum_list_take_mono) simp
    then have "?pre i + decl_size (ds ! i) \<le> ?pre j"
      using sum_list_take_Suc [OF i, of decl_size] by simp
    then show ?thesis using off [OF i] sz [OF i] off [OF that(2)] by simp
  qed
  have disj: "apart w' (decl_ref (k + i) (ds ! i)) (decl_ref (k + j) (ds ! j))"
    if "i < length ds" "j < length ds" "i \<noteq> j" for i j
  proof (cases "i < j")
    case True
    then show ?thesis using ordered [OF True that(2)] by (simp add: apart_def)
  next
    case False
    then have "j < i" using that(3) by simp
    then show ?thesis using ordered [OF _ that(1)] by (simp add: apart_def)
  qed
  have within: "?s i = decl_size (ds ! i) \<and> ?c0 \<le> ?o i \<and>
      ?o i + ?s i \<le> unat (stat_offset (builder w'))" if "i < length ds" for i
  proof -
    have "?pre (Suc i) \<le> ?pre (length ds)" using that by (intro sum_list_take_mono) simp
    then have "?pre i + decl_size (ds ! i) \<le> sum_list (map decl_size ds)"
      using sum_list_take_Suc [OF that, of decl_size] by simp
    then show ?thesis using off [OF that] sz [OF that] cur by simp
  qed
  have mono: "stat_offset (builder w) \<le> stat_offset (builder wm) \<and>
      stat_offset (builder wm) \<le> stat_offset (builder w')"
    if "construct_all k (take m ds) parent w = Inr (pm, wm)" for m pm wm
  proof -
    have f: "list_all fits_int (take m ds)"
      using assms(2) by (auto simp: list_all_iff dest: in_set_takeD)
    from construct_all_layout [OF assms(1) f that]
    have "unat (stat_offset (builder wm)) = ?c0 + ?pre m" by blast
    moreover have "?pre m \<le> sum_list (map decl_size ds)"
    proof (cases "m \<le> length ds")
      case True
      then have "?pre m \<le> ?pre (length ds)" by (rule sum_list_take_mono)
      then show ?thesis by simp
    next
      case False
      then show ?thesis by simp
    qed
    ultimately show ?thesis using cur by (simp add: word_le_nat_alt)
  qed
  show ?thesis using disj within mono L by blast
qed

theorem declared_ranges_disjoint_witness:
  "stat_offset (builder world0) < STATS_SIZE \<and>
   list_all fits_int [DeclObj 8 ''hits'', DeclArr 8 4 ''latency_hist'', DeclObj 8 ''misses''] \<and>
   (\<exists>p' w'. construct_all 0 [DeclObj 8 ''hits'', DeclArr 8 4 ''latency_hist'', DeclObj 8 ''misses'']
               (Statable [] [] ''cache'' (Some X)) world0 = Inr (p', w') \<and>
            leaf_offset w' (ObjRef 0) = 0 \<and> leaf_size w' (ObjRef 0) = 8 \<and>
            leaf_offset w' (ArrRef 1) = 8 \<and> leaf_size w' (ArrRef 1) = 32 \<and>
            leaf_offset w' (ObjRef 2) = 40 \<and> leaf_size w' (ObjRef 2) = 8 \<and>
            apart w' (ObjRef 0) (ArrRef 1) \<and> apart w' (ArrRef 1) (ObjRef 2) \<and>
            apart w' (ObjRef 2) (ObjRef 0) \<and>
            stat_offset (builder w') = 48)"
proof -
  let ?ds = "[DeclObj 8 ''hits'', DeclArr 8 4 ''latency_hist'', DeclObj 8 ''misses'']"
  let ?p = "Statable [] [] ''cache'' (Some X)"
  have c0: "stat_offset (builder world0) < STATS_SIZE"
    by (simp add: world0_def STATS_SIZE_def)
  have f: "list_all fits_int ?ds" by simp
  have "\<exists>p' w'. construct_all 0 ?ds ?p world0 = Inr (p', w') \<and>
      leaf_offset w' (ObjRef 0) = 0 \<and> leaf_size w' (ObjRef 0) = 8 \<and>
      leaf_offset w' (ArrRef 1) = 8 \<and> leaf_size w' (ArrRef 1) = 32 \<and>
      leaf_offset w' (ObjRef 2) = 40 \<and> leaf_size w' (ObjRef 2) = 8 \<and>
      stat_offset (builder w') = 48"
    by (simp add: ctor_defs)
  then obtain p' w' where r: "construct_all 0 ?ds ?p world0 = Inr (p', w')"
    and v: "leaf_offset w' (ObjRef 0) = 0 \<and> leaf_size w' (ObjRef 0) = 8 \<and>
      leaf_offset w' (ArrRef 1) = 8 \<and> leaf_size w' (ArrRef 1) = 32 \<and>
      leaf_offset w' (ObjRef 2) = 40 \<and> leaf_size w' (ObjRef 2) = 8 \<and>
      stat_offset (builder w') = 48"
    by blast
  note t = declared_ranges_disjoint [OF c0 f r]
  from t have d: "\<And>i j. i < length ?ds \<Longrightarrow> j < length ?ds \<Longrightarrow> i \<noteq> j \<Longrightarrow>
      apart w' (decl_ref (0 + i) (?ds ! i)) (decl_ref (0 + j) (?ds ! j))"
    by blast
  from d [of 0 1] d [of 1 2] d [of 2 0]
  have "apart w' (ObjRef 0) (ArrRef 1) \<and> apart w' (ArrRef 1) (ObjRef 2) \<and>
      apart w' (ObjRef 2) (ObjRef 0)" by (simp add: numeral_2_eq_2)
  then show ?thesis using c0 f r v by blast
qed

text \<open>
  C6 (the code at the failing input). Any two distinct descriptors of one builder
  should have disjoint byte ranges, and the cursor should never decrease. The
  constructor of \<open>StatArray\<close> passes the \<open>size_t\<close> product \<open>sizeof(T) * size\<close> to
  \<open>get_offset(int size)\<close>, and the narrowing defeats the capacity assertion:
  \<^item> \<open>StatArray<W64, 536870913>\<close> has \<open>2 ^ 32 + 8\<close> bytes and reserves 8, so the array
    at offset 0 overlaps the scalar declared next, at offset 8;
  \<^item> \<open>StatArray<W64, 536870911>\<close> has \<open>2 ^ 32 - 8\<close> bytes and reserves \<open>-8\<close>: declared
    after a \<open>W64\<close> scalar it moves the cursor from 8 back to 0;
  \<^item> so the \<open>W64\<close> scalars \<open>a\<close> and \<open>b\<close>, declared before and after that array, both
    get offset 0 and the same 8 bytes.
\<close>

theorem oversized_array_breaks_layout:
  "map_sum id (\<lambda>(p, w). (leaf_offset w (ArrRef 0), leaf_size w (ArrRef 0),
                          leaf_offset w (ObjRef 1), leaf_size w (ObjRef 1),
                          apart w (ArrRef 0) (ObjRef 1)))
     (construct_all 0 [DeclArr 8 536870913 ''big'', DeclObj 8 ''x'']
        (Statable [] [] ''n'' None) world0) = Inr (0, 4294967304, 8, 8, False) \<and>
   map_sum id (\<lambda>(p, w). stat_offset (builder w))
     (construct_all 0 [DeclObj 8 ''a''] (Statable [] [] ''n'' None) world0) = Inr 8 \<and>
   map_sum id (\<lambda>(p, w). stat_offset (builder w))
     (construct_all 0 [DeclObj 8 ''a'', DeclArr 8 536870911 ''neg'']
        (Statable [] [] ''n'' None) world0) = Inr 0 \<and>
   map_sum id (\<lambda>(p, w). (leaf_offset w (ObjRef 0), leaf_size w (ObjRef 0),
                          leaf_offset w (ObjRef 2), leaf_size w (ObjRef 2),
                          apart w (ObjRef 0) (ObjRef 2)))
     (construct_all 0 [DeclObj 8 ''a'', DeclArr 8 536870911 ''neg'', DeclObj 8 ''b'']
        (Statable [] [] ''n'' None) world0) = Inr (0, 8, 0, 8, False)"
  by (simp add: ctor_defs apart_def)

subsection \<open>Merging\<close>
















lemma StatArray_add_stats_fold:
  "StatArray_add_stats this d s w =
     fold (add_elem (arr_op_call this d w) (arr_op_call this s w) (arr_sizeof_T (arrs w this)))
       (indices (arrs w this)) w"
proof -
  have "(\<lambda>i w'. w'\<lparr>heap := store (heap w') (elem a n i) n
                 (T_add n (load (heap w') (elem a n i) n) (load (heap w') (elem b n i) n))\<rparr>)
        = add_elem a b n" for a b n
    by (simp add: fun_eq_iff add_elem_def)
  then show ?thesis by (simp add: StatArray_add_stats_def Let_def)
qed

lemma add_elem_fold_frame:
  "same_descriptors w (fold (add_elem a b n) js w) \<and>
   (\<forall>x. (\<forall>i \<in> set js. x \<notin> cells (elem a n i) n) \<longrightarrow>
        heap (fold (add_elem a b n) js w) x = heap w x)"
proof (induction js arbitrary: w)
  case Nil
  show ?case by (simp add: same_descriptors_def)
next
  case (Cons j js)
  let ?w1 = "add_elem a b n j w"
  have s1: "same_descriptors w ?w1" by (simp add: same_descriptors_def add_elem_def)
  have h1: "heap ?w1 x = heap w x" if "x \<notin> cells (elem a n j) n" for x
    using that by (simp add: add_elem_def store_outside)
  from Cons.IH [of ?w1] s1 h1 show ?case
    by (auto simp: same_descriptors_def)
qed













subsection \<open>Address resolution of an array descriptor\<close>

lemma exec_arrs:
  assumes "exec i c w = Inr w'"
  shows "arrs w' = arrs w"
proof (cases c)
  case (Binary f r)
  then show ?thesis using assms
    by (cases f; cases r)
       (auto simp: op_plus_def op_plus_obj_def op_minus_def op_minus_obj_def op_times_def
          op_times_obj_def op_divide_def op_divide_obj_def Let_def split: if_splits)
qed (use assms in \<open>auto simp: StatObj_set_default_stats_def op_post_inc_def op_pre_inc_def
        op_post_dec_def op_pre_dec_def StatObj_dump_os_def StatObj_dump_yaml_def
        StatObj_add_stats_def Let_def split: if_splits\<close>)

lemma arr_set_default_var_ptr_fields:
  "arr_offset (arr_set_default_var_ptr (StatObjBase_set_default_stats stats x)) = arr_offset x"
  "arr_sizeof_T (arr_set_default_var_ptr (StatObjBase_set_default_stats stats x)) = arr_sizeof_T x"
  "arr_size (arr_set_default_var_ptr (StatObjBase_set_default_stats stats x)) = arr_size x"
  "default_stats (arr_set_default_var_ptr (StatObjBase_set_default_stats stats x)) = stats"
  "arr_default_var (arr_set_default_var_ptr (StatObjBase_set_default_stats stats x)) =
     (case stats of None \<Rightarrow> 0 | Some s \<Rightarrow> base s + arr_offset x)"
  by (simp_all add: arr_set_default_var_ptr_def StatObjBase_set_default_stats_def
      split: option.splits)

lemma arr_exec_arrs:
  assumes "arr_exec i c w = Inr w'"
  shows "arrs w' = (case c of
            ArrSetDefaultStats stats \<Rightarrow> (arrs w)(i := arr_set_default_var_ptr
                 (StatObjBase_set_default_stats stats (arrs w i)))
          | _ \<Rightarrow> arrs w)"
proof (cases c)
  case (ArrAddStats d s)
  have "same_descriptors w (StatArray_add_stats i d s w)"
    using add_elem_fold_frame by (simp add: StatArray_add_stats_fold)
  then show ?thesis using assms ArrAddStats by (auto simp: same_descriptors_def)
qed (use assms in \<open>auto simp: StatArray_set_default_stats_def op_index_def
        StatArray_dump_os_def StatArray_dump_yaml_def Let_def split: if_splits\<close>)

lemma run_calls_arr_invariant:
  assumes "run_calls cs w = Inr w'"
  shows "arr_offset (arrs w' j) = arr_offset (arrs w j) \<and>
         arr_sizeof_T (arrs w' j) = arr_sizeof_T (arrs w j) \<and>
         arr_size (arrs w' j) = arr_size (arrs w j) \<and>
         (arr_default_var (arrs w j) = arr_resolved (arrs w j) \<longrightarrow>
          arr_default_var (arrs w' j) = arr_resolved (arrs w' j))"
  using assms
proof (induction cs w rule: run_calls.induct)
  case (1 w)
  then show ?case by simp
next
  case (2 this c cs w)
  from "2.prems" obtain w1 where e: "exec this c w = Inr w1" and r: "run_calls cs w1 = Inr w'"
    by (auto split: sum.splits)
  from "2.IH" [OF e r] exec_arrs [OF e] show ?case by simp
next
  case (3 this c cs w)
  from "3.prems" obtain w1 where e: "arr_exec this c w = Inr w1" and r: "run_calls cs w1 = Inr w'"
    by (auto split: sum.splits)
  have s: "arr_offset (arrs w1 j) = arr_offset (arrs w j) \<and>
         arr_sizeof_T (arrs w1 j) = arr_sizeof_T (arrs w j) \<and>
         arr_size (arrs w1 j) = arr_size (arrs w j) \<and>
         (arr_default_var (arrs w j) = arr_resolved (arrs w j) \<longrightarrow>
          arr_default_var (arrs w1 j) = arr_resolved (arrs w1 j))"
    using arr_exec_arrs [OF e]
    by (cases c) (simp_all add: arr_set_default_var_ptr_fields arr_resolved_def split: option.splits)
  from "3.IH" [OF e r] s show ?case by simp
qed

lemma StatArray_ctor_fields:
  assumes "StatArray_ctor this n sz nm parent w = Inr (p, w')"
  shows "arr_sizeof_T (arrs w' this) = n \<and> arr_size (arrs w' this) = sz \<and>
         arr_default_var (arrs w' this) = arr_resolved (arrs w' this)"
  using assms
  by (auto simp: StatArray_ctor_def Let_def arr_set_default_var_ptr_def arr_resolved_def
      split: sum.splits option.splits)

text \<open>
  What holds of an array descriptor built by its constructor, after any sequence of
  calls on scalar and array descriptors that runs to its end: the offset is the one
  the constructor reserved; \<open>default_var\<close> is the base of the current default stats
  plus that offset; \<open>operator()\<close> resolves the array to the base of the supplied stats
  plus that offset; \<open>set_default_stats\<close> retargets to the base of the new stats plus
  that offset; and \<open>operator[]\<close> starts from the base of the default stats plus that
  offset and advances by \<open>index * sizeof(T) * sizeof(T)\<close> bytes.
\<close>

theorem array_address_resolution:
  assumes "StatArray_ctor this n sz nm parent w0 = Inr (p, w1)" and "run_calls cs w1 = Inr w2"
  shows "arr_offset (arrs w2 this) = arr_offset (arrs w1 this) \<and>
         arr_default_var (arrs w2 this) =
           (case default_stats (arrs w2 this) of
              None \<Rightarrow> 0
            | Some s \<Rightarrow> base s + arr_offset (arrs w1 this)) \<and>
         arr_op_call this stats w2 = base stats + arr_offset (arrs w1 this) \<and>
         arr_default_var (arrs (StatArray_set_default_stats this (Some s') w2) this) =
           base s' + arr_offset (arrs w1 this) \<and>
         op_index this index w2 =
           (if \<not> sint index < sint sz then Inl AssertionFailed
            else case default_stats (arrs w2 this) of
                   None \<Rightarrow> Inl AssertionFailed
                 | Some s \<Rightarrow>
                     if base s + arr_offset (arrs w1 this) = 0 then Inl AssertionFailed
                     else Inr (base s + arr_offset (arrs w1 this)
                                 + (scast index * of_nat n) * of_nat n, w2))"
    (is "?c1 \<and> ?c2 \<and> ?c3 \<and> ?c4 \<and> ?c5")
proof -
  note inv = run_calls_arr_invariant [OF assms(2), of this]
  note c = StatArray_ctor_fields [OF assms(1)]
  have off: ?c1 using inv by simp
  have f: "arr_sizeof_T (arrs w2 this) = n" "arr_size (arrs w2 this) = sz"
    using inv c by simp_all
  have "arr_default_var (arrs w2 this) = arr_resolved (arrs w2 this)" using inv c by simp
  then have dv: ?c2 by (simp add: arr_resolved_def off split: option.splits)
  have call: ?c3 by (simp add: arr_op_call_def off)
  have sds: ?c4
    by (simp add: StatArray_set_default_stats_def arr_set_default_var_ptr_fields off)
  have idx: ?c5
    using dv f by (simp add: op_index_def Let_def word_sless_alt split: option.splits)
  from off dv call sds idx show ?thesis by (intro conjI)
qed

theorem array_address_resolution_witness:
  "StatArray_ctor 0 8 4 ''latency_hist'' (Statable [] [] ''cache'' (Some X)) world0 =
     Inr (Statable [] [ArrRef 0] ''cache'' (Some X),
          world0\<lparr>builder := \<lparr>rootNode = Statable [] [] [] None, stat_offset = 32\<rparr>,
                 arrs := (\<lambda>_. blank_arr)(0 := \<lparr>default_stats = Some X, name = ''latency_hist'',
                    arr_sizeof_T = 8, arr_size = 4, arr_offset = 0, arr_default_var = 4096\<rparr>)\<rparr>) \<and>
   (\<exists>w2. run_calls [OnArr 0 (ArrSetDefaultStats None), OnArr 0 (ArrSetDefaultStats (Some Y)),
                     OnArr 0 (Index 2)]
           (world0\<lparr>builder := \<lparr>rootNode = Statable [] [] [] None, stat_offset = 32\<rparr>,
                 arrs := (\<lambda>_. blank_arr)(0 := \<lparr>default_stats = Some X, name = ''latency_hist'',
                    arr_sizeof_T = 8, arr_size = 4, arr_offset = 0, arr_default_var = 4096\<rparr>)\<rparr>)
           = Inr w2 \<and>
         arr_offset (arrs w2 0) = 0 \<and> arr_default_var (arrs w2 0) = 16384 \<and>
         arr_op_call 0 X w2 = 4096 \<and>
         op_index 0 2 w2 = Inr (16512, w2))"
proof -
  let ?p = "Statable [] [ArrRef 0] ''cache'' (Some X)"
  let ?w1 = "world0\<lparr>builder := \<lparr>rootNode = Statable [] [] [] None, stat_offset = 32\<rparr>,
                 arrs := (\<lambda>_. blank_arr)(0 := \<lparr>default_stats = Some X, name = ''latency_hist'',
                    arr_sizeof_T = 8, arr_size = 4, arr_offset = 0, arr_default_var = 4096\<rparr>)\<rparr>"
  let ?cs = "[OnArr 0 (ArrSetDefaultStats None), OnArr 0 (ArrSetDefaultStats (Some Y)),
              OnArr 0 (Index 2)]"
  have c: "StatArray_ctor 0 8 4 ''latency_hist'' (Statable [] [] ''cache'' (Some X)) world0
      = Inr (?p, ?w1)"
    by (simp add: ctor_defs)
  have "\<exists>w2. run_calls ?cs ?w1 = Inr w2 \<and> default_stats (arrs w2 0) = Some Y"
    by (simp add: StatArray_set_default_stats_def StatObjBase_set_default_stats_def
        arr_set_default_var_ptr_def op_index_def word_sless_alt base_def Y_def Let_def)
  then obtain w2 where r: "run_calls ?cs ?w1 = Inr w2" and ds: "default_stats (arrs w2 0) = Some Y"
    by blast
  have o1: "arr_offset (arrs ?w1 0) = 0" by simp
  from array_address_resolution [OF c r, of X Y 2] ds o1
  have "arr_offset (arrs w2 0) = 0 \<and> arr_default_var (arrs w2 0) = 16384 \<and>
         arr_op_call 0 X w2 = 4096 \<and> op_index 0 2 w2 = Inr (16512, w2)"
    by (simp add: base_def X_def Y_def)
  then show ?thesis using c r by blast
qed

text \<open>
  C7 (the code at the failing input). Every access of a descriptor should resolve to
  its storage at the arena's base plus its offset. \<open>latency_hist[4]\<close> of type \<open>W64\<close>
  at offset 8 has its default stats set to the arena \<open>X\<close>, whose base is 4096: its
  storage in \<open>X\<close> is the 32 bytes from 4104, and \<open>operator()(&X)\<close> resolves the array to
  4104 and element 1 to 4112. The default-target access \<open>operator[](1)\<close> resolves to
  4168, which is neither element 1 nor inside the descriptor's storage.
\<close>

theorem array_index_resolves_outside_storage:
  "default_stats (arrs example_world 0) = Some X \<and>
   base X + arr_offset (arrs example_world 0) = 4104 \<and>
   leaf_size example_world (ArrRef 0) = 32 \<and>
   arr_op_call 0 X example_world = 4104 \<and>
   elem (arr_op_call 0 X example_world) 8 1 = 4112 \<and>
   op_index 0 1 example_world = Inr (4168, example_world) \<and>
   4168 \<notin> cells (arr_op_call 0 X example_world) (leaf_size example_world (ArrRef 0))"
proof -
  have a: "arr_op_call 0 X example_world = 4104"
    and s: "leaf_size example_world (ArrRef 0) = 32"
    by (simp_all add: example_world_def arr_op_call_def base_def X_def)
  have "unat (4104 :: W64) + 32 \<le> 2 ^ 64" by simp
  then have "x \<in> cells 4104 32 \<Longrightarrow> unat x < 4136" for x :: W64
    using cells_unat [of 4104 32 x] by simp
  then have out: "(4168 :: W64) \<notin> cells 4104 32" by fastforce
  have rest: "default_stats (arrs example_world 0) = Some X \<and>
      base X + arr_offset (arrs example_world 0) = 4104 \<and>
      elem (arr_op_call 0 X example_world) 8 1 = 4112 \<and>
      op_index 0 1 example_world = Inr (4168, example_world)"
    by (simp add: example_world_def arr_op_call_def op_index_def elem_def base_def X_def
        Let_def word_sless_alt)
  show ?thesis using rest out by (simp only: a s) simp
qed

end
